theory Spec2Isabelle
  imports Complex_Main
begin

section \<open>JavaScript values\<close>

text \<open>
  A JavaScript number is an IEEE 754 double: a finite value, one of the two infinities,
  or NaN. A finite value is the real number it stands for; the sign of zero is outside
  the model.
\<close>

datatype jsnum = Num real | PosInf | NegInf | NaN

text \<open>
  Rounding to a double. A real is rounded to the nearest multiple of the spacing of
  its binade (53 significant bits; below \<open>2\<^sup>-\<^sup>1\<^sup>0\<^sup>2\<^sup>2\<close> the spacing stays \<open>2\<^sup>-\<^sup>1\<^sup>0\<^sup>7\<^sup>4\<close>), a tie
  going to the even multiple; a result of magnitude \<open>2\<^sup>1\<^sup>0\<^sup>2\<^sup>4\<close> or more is an infinity.
\<close>

definition round_even :: "real \<Rightarrow> int" where
  "round_even m =
     (let f = \<lfloor>m\<rfloor>; d = m - of_int f
      in if d < 1 / 2 then f else if 1 / 2 < d then f + 1 else if even f then f else f + 1)"

definition binade :: "real \<Rightarrow> int" where
  "binade x = max \<lfloor>log 2 \<bar>x\<bar>\<rfloor> (- 1022)"

definition round_to_double :: "real \<Rightarrow> real" where
  "round_to_double x =
     (if x = 0 then 0
      else of_int (round_even (x / 2 powi (binade x - 52))) * 2 powi (binade x - 52))"

definition overflow_bound :: real where
  "overflow_bound = 2 ^ 1024"

definition fl :: "real \<Rightarrow> jsnum" where
  "fl x =
     (let r = round_to_double x
      in if overflow_bound \<le> \<bar>r\<bar> then (if 0 < x then PosInf else NegInf) else Num r)"

datatype jsval =
    JNumber jsnum
  | JString string
  | JBoolean bool
  | JNull
  | JUndefined
  | JArray "jsval list"
  | JObject "(string \<times> jsval) list"

text \<open>\<^verbatim>\<open>isNaN(val)\<close> and \<^verbatim>\<open>isFinite(val)\<close> on a value whose \<^verbatim>\<open>typeof\<close> is number.\<close>

fun isNaN :: "jsnum \<Rightarrow> bool" where
  "isNaN NaN = True"
| "isNaN _ = False"

fun isFinite :: "jsnum \<Rightarrow> bool" where
  "isFinite (Num _) = True"
| "isFinite _ = False"

text \<open>
  The operators \<^verbatim>\<open>+\<close>, \<^verbatim>\<open>-\<close>, \<^verbatim>\<open>*\<close>, \<^verbatim>\<open>/\<close> and \<^verbatim>\<open>Math.sqrt\<close> on doubles: the exact result,
  rounded. \<^verbatim>\<open>Math.min\<close>, \<^verbatim>\<open>Math.max\<close> and the comparisons do not round.
\<close>

fun jadd :: "jsnum \<Rightarrow> jsnum \<Rightarrow> jsnum" where
  "jadd (Num x) (Num y) = fl (x + y)"
| "jadd NaN _ = NaN"
| "jadd _ NaN = NaN"
| "jadd PosInf NegInf = NaN"
| "jadd NegInf PosInf = NaN"
| "jadd PosInf _ = PosInf"
| "jadd _ PosInf = PosInf"
| "jadd NegInf _ = NegInf"
| "jadd _ NegInf = NegInf"

fun jneg :: "jsnum \<Rightarrow> jsnum" where
  "jneg (Num x) = Num (- x)"
| "jneg PosInf = NegInf"
| "jneg NegInf = PosInf"
| "jneg NaN = NaN"

definition jsub :: "jsnum \<Rightarrow> jsnum \<Rightarrow> jsnum" where
  "jsub a b = jadd a (jneg b)"

text \<open>The infinity of the sign of a finite, non-zero factor.\<close>

definition signed_inf :: "real \<Rightarrow> jsnum" where
  "signed_inf x = (if x = 0 then NaN else if 0 < x then PosInf else NegInf)"

fun jmul :: "jsnum \<Rightarrow> jsnum \<Rightarrow> jsnum" where
  "jmul (Num x) (Num y) = fl (x * y)"
| "jmul NaN _ = NaN"
| "jmul _ NaN = NaN"
| "jmul (Num x) PosInf = signed_inf x"
| "jmul (Num x) NegInf = signed_inf (- x)"
| "jmul PosInf (Num y) = signed_inf y"
| "jmul NegInf (Num y) = signed_inf (- y)"
| "jmul PosInf PosInf = PosInf"
| "jmul NegInf NegInf = PosInf"
| "jmul PosInf NegInf = NegInf"
| "jmul NegInf PosInf = NegInf"

fun jdivide :: "jsnum \<Rightarrow> jsnum \<Rightarrow> jsnum" where
  "jdivide (Num x) (Num y) = (if y = 0 then signed_inf x else fl (x / y))"
| "jdivide NaN _ = NaN"
| "jdivide _ NaN = NaN"
| "jdivide (Num x) _ = Num 0"
| "jdivide PosInf (Num y) = (if 0 \<le> y then PosInf else NegInf)"
| "jdivide NegInf (Num y) = (if 0 \<le> y then NegInf else PosInf)"
| "jdivide _ _ = NaN"

text \<open>
  The quotient \<^verbatim>\<open>total / limit\<close> of \<^verbatim>\<open>listVectors\<close>, whose operands are integer counts, is
  taken without rounding: only its ceiling is used, and rounding leaves that unchanged.
\<close>

fun jdiv :: "jsnum \<Rightarrow> jsnum \<Rightarrow> jsnum" where
  "jdiv (Num x) (Num y) = (if y = 0 then signed_inf x else Num (x / y))"
| "jdiv NaN _ = NaN"
| "jdiv _ NaN = NaN"
| "jdiv (Num x) _ = Num 0"
| "jdiv PosInf (Num y) = (if 0 \<le> y then PosInf else NegInf)"
| "jdiv NegInf (Num y) = (if 0 \<le> y then NegInf else PosInf)"
| "jdiv _ _ = NaN"

fun jsqrt :: "jsnum \<Rightarrow> jsnum" where
  "jsqrt (Num x) = (if x < 0 then NaN else fl (sqrt x))"
| "jsqrt PosInf = PosInf"
| "jsqrt NegInf = NaN"
| "jsqrt NaN = NaN"

fun jmin :: "jsnum \<Rightarrow> jsnum \<Rightarrow> jsnum" where
  "jmin (Num x) (Num y) = Num (min x y)"
| "jmin NaN _ = NaN"
| "jmin _ NaN = NaN"
| "jmin NegInf _ = NegInf"
| "jmin _ NegInf = NegInf"
| "jmin PosInf b = b"
| "jmin a PosInf = a"

fun jmax :: "jsnum \<Rightarrow> jsnum \<Rightarrow> jsnum" where
  "jmax (Num x) (Num y) = Num (max x y)"
| "jmax NaN _ = NaN"
| "jmax _ NaN = NaN"
| "jmax PosInf _ = PosInf"
| "jmax _ PosInf = PosInf"
| "jmax NegInf b = b"
| "jmax a NegInf = a"

text \<open>The comparison \<^verbatim>\<open>a < b\<close> on numbers: false whenever an operand is NaN.\<close>

fun jless :: "jsnum \<Rightarrow> jsnum \<Rightarrow> bool" where
  "jless (Num x) (Num y) = (x < y)"
| "jless NaN _ = False"
| "jless _ NaN = False"
| "jless _ NegInf = False"
| "jless PosInf _ = False"
| "jless NegInf _ = True"
| "jless _ PosInf = True"

text \<open>
  Reading \<^verbatim>\<open>v[i]\<close> as a number: past the end JavaScript yields \<^verbatim>\<open>undefined\<close>, which
  every arithmetic operator and \<^verbatim>\<open>Math.min\<close>/\<^verbatim>\<open>Math.max\<close> turn into NaN.
\<close>

definition at_index :: "jsnum list \<Rightarrow> nat \<Rightarrow> jsnum" where
  "at_index v i = (if i < length v then v ! i else NaN)"

text \<open>Truthiness, as \<^verbatim>\<open>if (x)\<close> and \<^verbatim>\<open>x || y\<close> test it.\<close>

fun truthy :: "jsval \<Rightarrow> bool" where
  "truthy (JNumber (Num x)) = (x \<noteq> 0)"
| "truthy (JNumber NaN) = False"
| "truthy (JNumber _) = True"
| "truthy (JString s) = (s \<noteq> [])"
| "truthy (JBoolean b) = b"
| "truthy JNull = False"
| "truthy JUndefined = False"
| "truthy (JArray _) = True"
| "truthy (JObject _) = True"

section \<open>VectorUtils\<close>

text \<open>
  The errors VectorUtils throws, one constructor per message:
  \<^item> \<open>NotAnArray\<close>: \<^verbatim>\<open>Vector must be an array\<close>
  \<^item> \<open>EmptyVector\<close>: \<^verbatim>\<open>Vector cannot be empty\<close>
  \<^item> \<open>InvalidNumbers\<close>: \<^verbatim>\<open>Vector must contain only valid numbers\<close>
  \<^item> \<open>ExpectedDimensions n\<close>: \<^verbatim>\<open>Vector must have exactly ${n} dimensions\<close>
  \<^item> \<open>DimensionExceeded m\<close>: \<^verbatim>\<open>Vector exceeds maximum dimensions: ${m}\<close>
  \<^item> \<open>DimensionMismatch\<close>: \<^verbatim>\<open>Vectors must have the same dimensions\<close>
\<close>

datatype vector_error =
    NotAnArray
  | EmptyVector
  | InvalidNumbers
  | ExpectedDimensions jsval
  | DimensionExceeded jsnum
  | DimensionMismatch

text \<open>\<^verbatim>\<open>cosineSimilarity\<close>: one loop accumulates the dot product and both squared norms.\<close>

definition cosine_step ::
  "jsnum list \<Rightarrow> jsnum list \<Rightarrow> nat \<Rightarrow> jsnum \<times> jsnum \<times> jsnum \<Rightarrow> jsnum \<times> jsnum \<times> jsnum" where
  "cosine_step vectorA vectorB i acc =
     (case acc of (dot, normA, normB) \<Rightarrow>
        (jadd dot (jmul (at_index vectorA i) (at_index vectorB i)),
         jadd normA (jmul (at_index vectorA i) (at_index vectorA i)),
         jadd normB (jmul (at_index vectorB i) (at_index vectorB i))))"

definition cosineSimilarity :: "jsnum list \<Rightarrow> jsnum list \<Rightarrow> vector_error + jsnum" where
  "cosineSimilarity vectorA vectorB =
     (if length vectorA \<noteq> length vectorB then Inl DimensionMismatch
      else
        (case fold (cosine_step vectorA vectorB) [0..<length vectorA] (Num 0, Num 0, Num 0) of
           (dot, normA, normB) \<Rightarrow>
             (let magnitude = jmul (jsqrt normA) (jsqrt normB)
              in if magnitude = Num 0 then Inr (Num 0) else Inr (jdivide dot magnitude))))"

text \<open>\<^verbatim>\<open>magnitude\<close>: \<^verbatim>\<open>Math.sqrt(vector.reduce((sum, val) => sum + val * val, 0))\<close>.\<close>

definition magnitude :: "jsnum list \<Rightarrow> jsnum" where
  "magnitude vector = jsqrt (fold (\<lambda>val sum. jadd sum (jmul val val)) vector (Num 0))"

text \<open>\<^verbatim>\<open>dotProduct\<close>: \<^verbatim>\<open>vectorA.reduce((sum, val, i) => sum + val * vectorB[i], 0)\<close>.\<close>

definition dotProduct :: "jsnum list \<Rightarrow> jsnum list \<Rightarrow> vector_error + jsnum" where
  "dotProduct vectorA vectorB =
     (if length vectorA \<noteq> length vectorB then Inl DimensionMismatch
      else Inr (fold (\<lambda>(i, val) sum. jadd sum (jmul val (at_index vectorB i)))
                  (enumerate 0 vectorA) (Num 0)))"

text \<open>
  \<^verbatim>\<open>validateVector(vector, expectedDimensions = null)\<close>. The third argument is
  \<^verbatim>\<open>parseInt(process.env.MAX_VECTOR_DIMENSIONS)\<close>, NaN when the variable is unset.
\<close>

fun valid_number :: "jsval \<Rightarrow> bool" where
  "valid_number (JNumber n) = (\<not> isNaN n)"
| "valid_number _ = False"

definition validateVector :: "jsval \<Rightarrow> jsval \<Rightarrow> jsnum \<Rightarrow> vector_error + bool" where
  "validateVector vector expectedDimensions envMax =
     (case vector of
        JArray vals \<Rightarrow>
          if length vals = 0 then Inl EmptyVector
          else if \<not> list_all valid_number vals then Inl InvalidNumbers
          else if truthy expectedDimensions
                  \<and> JNumber (Num (real (length vals))) \<noteq> expectedDimensions
            then Inl (ExpectedDimensions expectedDimensions)
          else
            (let maxDimensions = (if truthy (JNumber envMax) then envMax else Num 4096)
             in if jless maxDimensions (Num (real (length vals)))
                then Inl (DimensionExceeded maxDimensions) else Inr True)
      | _ \<Rightarrow> Inl NotAnArray)"

text \<open>\<^verbatim>\<open>isValidVector\<close>: every element is a number, not NaN, and finite.\<close>

fun finite_number :: "jsval \<Rightarrow> bool" where
  "finite_number (JNumber n) = (\<not> isNaN n \<and> isFinite n)"
| "finite_number _ = False"

definition isValidVector :: "jsval list \<Rightarrow> bool" where
  "isValidVector vector = list_all finite_number vector"

text \<open>
  \<^verbatim>\<open>array.slice(start, end)\<close> on integer arguments: a negative index counts from the end,
  and both indices are clamped to the array.
\<close>

definition js_slice :: "'a list \<Rightarrow> int \<Rightarrow> int \<Rightarrow> 'a list" where
  "js_slice xs start stop =
     (let len = int (length xs);
          k = (if start < 0 then max (len + start) 0 else min start len);
          final = (if stop < 0 then max (len + stop) 0 else min stop len)
      in take (nat (final - k)) (drop (nat k) xs))"

text \<open>
  \<^verbatim>\<open>array.map(fn)\<close> calls \<^verbatim>\<open>fn(element, index, array)\<close>: a callback sees the index of the
  element in the array being mapped, and that array.
\<close>

definition js_map :: "('a \<Rightarrow> nat \<Rightarrow> 'a list \<Rightarrow> 'b) \<Rightarrow> 'a list \<Rightarrow> 'b list" where
  "js_map fn xs = map (\<lambda>(i, x). fn x i xs) (enumerate 0 xs)"

text \<open>
  \<^verbatim>\<open>batchProcess(vectors, processFn, batchSize = 100)\<close> for an integer \<open>batchSize\<close>. The
  loop \<^verbatim>\<open>for (let i = 0; i < vectors.length; i += batchSize)\<close> need not end, so it is a
  partial function: \<open>None\<close> is the loop that never returns. The call
  \<^verbatim>\<open>results.push(...batchResults)\<close> passes every element of the chunk as an argument, and
  the engine throws \<^verbatim>\<open>RangeError\<close> when there are more than it accepts; that number,
  \<open>maxArguments\<close>, differs between engines and is a parameter.
\<close>

datatype range_error = RangeError

partial_function (option) batchProcess_loop ::
  "nat \<Rightarrow> 'a list \<Rightarrow> ('a \<Rightarrow> nat \<Rightarrow> 'a list \<Rightarrow> 'b) \<Rightarrow> int \<Rightarrow> int \<Rightarrow> 'b list
     \<Rightarrow> (range_error + 'b list) option" where
  "batchProcess_loop maxArguments vectors processFn batchSize i results =
     (if i < int (length vectors)
      then
        (if maxArguments < length (js_map processFn (js_slice vectors i (i + batchSize)))
         then Some (Inl RangeError)
         else batchProcess_loop maxArguments vectors processFn batchSize (i + batchSize)
                (results @ js_map processFn (js_slice vectors i (i + batchSize))))
      else Some (Inr results))"

definition batchProcess ::
  "nat \<Rightarrow> 'a list \<Rightarrow> ('a \<Rightarrow> nat \<Rightarrow> 'a list \<Rightarrow> 'b) \<Rightarrow> int option
     \<Rightarrow> (range_error + 'b list) option" where
  "batchProcess maxArguments vectors processFn batchSize =
     batchProcess_loop maxArguments vectors processFn
       (case batchSize of None \<Rightarrow> 100 | Some b \<Rightarrow> b) 0 []"


definition index_seen :: "int \<Rightarrow> nat \<Rightarrow> int list \<Rightarrow> int" where
  "index_seen val index array = int index"

text \<open>
  \<^verbatim>\<open>calculateVectorStatistics\<close>. The fields \<^verbatim>\<open>min\<close> and \<^verbatim>\<open>max\<close> of an entry of
  \<^verbatim>\<open>dimension_stats\<close> are \<open>min_stat\<close> and \<open>max_stat\<close> here.
\<close>

record dimension_stat =
  min_stat :: jsnum
  max_stat :: jsnum
  mean :: jsnum
  std :: jsnum

record vector_statistics =
  count :: nat
  dimensions :: nat
  mean_magnitude :: jsnum
  min_magnitude :: jsnum
  max_magnitude :: jsnum
  dimension_stats :: "dimension_stat list"

text \<open>
  One step of the running minimum and maximum of a dimension:
  \<^verbatim>\<open>min = Math.min(min, val)\<close> and \<^verbatim>\<open>max = Math.max(max, val)\<close>.
\<close>

definition seen :: "jsnum \<Rightarrow> dimension_stat \<Rightarrow> dimension_stat" where
  "seen val d = d\<lparr>min_stat := jmin (min_stat d) val, max_stat := jmax (max_stat d) val\<rparr>"

text \<open>
  The first loop runs over the vectors and, inside, over the dimensions
  \<^verbatim>\<open>0 .. dimensions - 1\<close>; it updates \<^verbatim>\<open>stats\<close>, \<^verbatim>\<open>magnitudes\<close> and \<^verbatim>\<open>dimensionValues\<close>
  in place. Its state is the triple of the three.
\<close>

definition collect_dimension ::
  "jsnum list \<Rightarrow> nat \<Rightarrow> vector_statistics \<times> jsnum list list \<Rightarrow> vector_statistics \<times> jsnum list list" where
  "collect_dimension vector i acc =
     (case acc of (stats, dimensionValues) \<Rightarrow>
        (let val = at_index vector i
         in (stats\<lparr>dimension_stats :=
                      (dimension_stats stats)[i := seen val (dimension_stats stats ! i)]\<rparr>,
             dimensionValues[i := dimensionValues ! i @ [val]])))"

definition collect_vector ::
  "nat \<Rightarrow> jsnum list \<Rightarrow> vector_statistics \<times> jsnum list \<times> jsnum list list
     \<Rightarrow> vector_statistics \<times> jsnum list \<times> jsnum list list" where
  "collect_vector dims vector acc =
     (case acc of (stats, magnitudes, dimensionValues) \<Rightarrow>
        (let m = magnitude vector;
             stats1 = stats\<lparr>min_magnitude := jmin (min_magnitude stats) m,
                            max_magnitude := jmax (max_magnitude stats) m\<rparr>;
             (stats2, dimensionValues2) =
                fold (collect_dimension vector) [0..<dims] (stats1, dimensionValues)
         in (stats2, magnitudes @ [m], dimensionValues2)))"

text \<open>The second loop sets \<^verbatim>\<open>mean\<close> and \<^verbatim>\<open>std\<close> of every dimension.\<close>

definition column_mean :: "jsnum list \<Rightarrow> jsnum" where
  "column_mean vals = jdivide (fold (\<lambda>val sum. jadd sum val) vals (Num 0)) (Num (real (length vals)))"

definition column_std :: "jsnum list \<Rightarrow> jsnum \<Rightarrow> jsnum" where
  "column_std vals m =
     (let variance = jdivide (fold (\<lambda>val sum. let diff = jsub val m in jadd sum (jmul diff diff))
                             vals (Num 0))
                          (Num (real (length vals)))
      in jsqrt variance)"

definition finish_dimension :: "jsnum list list \<Rightarrow> nat \<Rightarrow> vector_statistics \<Rightarrow> vector_statistics" where
  "finish_dimension dimensionValues i stats =
     (let vals = dimensionValues ! i;
          m = column_mean vals
      in stats\<lparr>dimension_stats := (dimension_stats stats)
                  [i := (dimension_stats stats ! i)\<lparr>mean := m, std := column_std vals m\<rparr>]\<rparr>)"

definition calculateVectorStatistics :: "jsnum list list \<Rightarrow> vector_statistics option" where
  "calculateVectorStatistics vectors =
     (case vectors of
        [] \<Rightarrow> None
      | first # _ \<Rightarrow>
          (let dims = length first;
               stats = \<lparr>count = length vectors, dimensions = dims, mean_magnitude = Num 0,
                        min_magnitude = PosInf, max_magnitude = NegInf,
                        dimension_stats =
                          replicate dims \<lparr>min_stat = PosInf, max_stat = NegInf, mean = Num 0, std = Num 0\<rparr>\<rparr>;
               (stats1, magnitudes, dimensionValues) =
                  fold (collect_vector dims) vectors (stats, [], replicate dims []);
               stats2 = stats1\<lparr>mean_magnitude :=
                          jdivide (fold (\<lambda>mag sum. jadd sum mag) magnitudes (Num 0))
                               (Num (real (length magnitudes)))\<rparr>
           in Some (fold (finish_dimension dimensionValues) [0..<dims] stats2)))"

section \<open>The document store\<close>

text \<open>
  A stored document has \<^verbatim>\<open>_id\<close>, \<^verbatim>\<open>vector\<close> and \<^verbatim>\<open>metadata\<close>; the metadata object is a
  map from field names to values. An error is a JavaScript \<^verbatim>\<open>Error\<close> with its message.
\<close>

type_synonym metadata = "string \<Rightarrow> jsval option"

record document =
  d_id :: string
  d_vector :: "jsnum list"
  d_metadata :: metadata

datatype js_error = Error string

fun message :: "js_error \<Rightarrow> string" where
  "message (Error m) = m"

text \<open>
  The collection of the external store, as far as the service uses it: the documents
  it holds, and \<open>failure\<close>, which when set makes every call reject with that message (the
  store is unreachable). The update document the service sends has at most the two
  top-level fields \<^verbatim>\<open>vector\<close> and \<^verbatim>\<open>metadata\<close>; \<^verbatim>\<open>$set\<close> assigns each field that is
  present and leaves the others of the stored document alone.
\<close>

record collection =
  docs :: "document list"
  failure :: "string option"

record update_doc =
  set_vector :: "jsnum list option"
  set_metadata :: "metadata option"

definition apply_set :: "update_doc \<Rightarrow> document \<Rightarrow> document" where
  "apply_set upd d =
     d\<lparr>d_vector := (case set_vector upd of None \<Rightarrow> d_vector d | Some v \<Rightarrow> v),
       d_metadata := (case set_metadata upd of None \<Rightarrow> d_metadata d | Some m \<Rightarrow> m)\<rparr>"

definition insertOne :: "collection \<Rightarrow> document \<Rightarrow> js_error + (string \<times> collection)" where
  "insertOne c d =
     (case failure c of
        Some m \<Rightarrow> Inl (Error m)
      | None \<Rightarrow> Inr (d_id d, c\<lparr>docs := docs c @ [d]\<rparr>))"

definition insertMany ::
  "collection \<Rightarrow> document list \<Rightarrow> js_error + ((nat \<times> string list) \<times> collection)" where
  "insertMany c ds =
     (case failure c of
        Some m \<Rightarrow> Inl (Error m)
      | None \<Rightarrow> Inr ((length ds, map d_id ds), c\<lparr>docs := docs c @ ds\<rparr>))"

definition findOne :: "collection \<Rightarrow> string \<Rightarrow> js_error + document option" where
  "findOne c ident =
     (case failure c of
        Some m \<Rightarrow> Inl (Error m)
      | None \<Rightarrow> Inr (find (\<lambda>d. d_id d = ident) (docs c)))"

text \<open>\<^verbatim>\<open>findOneAndUpdate({_id}, {$set: updateDoc}, {returnDocument: 'after'})\<close>.\<close>

fun update_first :: "string \<Rightarrow> update_doc \<Rightarrow> document list \<Rightarrow> document list" where
  "update_first ident upd [] = []"
| "update_first ident upd (d # ds) =
     (if d_id d = ident then apply_set upd d # ds else d # update_first ident upd ds)"

definition findOneAndUpdate ::
  "collection \<Rightarrow> string \<Rightarrow> update_doc \<Rightarrow> js_error + (document option \<times> collection)" where
  "findOneAndUpdate c ident upd =
     (case failure c of
        Some m \<Rightarrow> Inl (Error m)
      | None \<Rightarrow>
          (case find (\<lambda>d. d_id d = ident) (docs c) of
             None \<Rightarrow> Inr (None, c)
           | Some d \<Rightarrow> Inr (Some (apply_set upd d), c\<lparr>docs := update_first ident upd (docs c)\<rparr>)))"

fun remove_first :: "string \<Rightarrow> document list \<Rightarrow> document list" where
  "remove_first ident [] = []"
| "remove_first ident (d # ds) = (if d_id d = ident then ds else d # remove_first ident ds)"

definition deleteOne :: "collection \<Rightarrow> string \<Rightarrow> js_error + (nat \<times> collection)" where
  "deleteOne c ident =
     (case failure c of
        Some m \<Rightarrow> Inl (Error m)
      | None \<Rightarrow>
          (case find (\<lambda>d. d_id d = ident) (docs c) of
             None \<Rightarrow> Inr (0, c)
           | Some d \<Rightarrow> Inr (1, c\<lparr>docs := remove_first ident (docs c)\<rparr>)))"

text \<open>
  Queries are answered by the store's own filtering, sorting and vector ranking. The
  service sees only the answers, so \<^verbatim>\<open>find\<close> and \<^verbatim>\<open>countDocuments\<close> are functions the
  store supplies; a filter is the JavaScript object the service builds, a list of
  fields in insertion order. A document of a vector-ranked query carries
  \<^verbatim>\<open>$similarity\<close>.
\<close>

datatype sort_spec = SortField string int | SortVector "jsnum list"

record find_options =
  opt_sort :: sort_spec
  opt_limit :: int
  opt_skip :: "int option"
  opt_includeSimilarity :: bool

record found = document +
  similarity :: jsval

record query_store =
  find_docs :: "(string \<times> jsval) list \<Rightarrow> find_options \<Rightarrow> js_error + found list"
  countDocuments :: "(string \<times> jsval) list \<Rightarrow> js_error + int"

text \<open>\<^verbatim>\<open>obj[key] = value\<close> and \<^verbatim>\<open>{...obj, key: value}\<close> on an object given by its fields.\<close>

fun set_field :: "string \<Rightarrow> jsval \<Rightarrow> (string \<times> jsval) list \<Rightarrow> (string \<times> jsval) list" where
  "set_field k v [] = [(k, v)]"
| "set_field k v ((k', v') # kvs) =
     (if k' = k then (k, v) # kvs else (k', v') # set_field k v kvs)"

section \<open>VectorService\<close>

text \<open>
  What the service reads from its environment: \<open>uuidv4 k\<close> is the result of the \<open>k\<close>-th
  call of \<^verbatim>\<open>uuidv4()\<close> within an operation and \<open>now k\<close> that of the \<open>k\<close>-th
  \<^verbatim>\<open>new Date().toISOString()\<close>.
\<close>

record environment =
  uuidv4 :: "nat \<Rightarrow> string"
  now :: "nat \<Rightarrow> string"

text \<open>
  Every method runs in \<^verbatim>\<open>try { ... } catch (error) { throw new Error(`<context>${error.message}`) }\<close>:
  whatever is thrown inside, the method's own \<^verbatim>\<open>Vector not found\<close> included, leaves
  it with the context put before its message.
\<close>

definition rethrow :: "string \<Rightarrow> js_error + 'a \<Rightarrow> js_error + 'a" where
  "rethrow context r = (case r of Inl e \<Rightarrow> Inl (Error (context @ message e)) | Inr x \<Rightarrow> Inr x)"

record vector_data =
  v_vector :: "jsnum list"
  v_metadata :: "metadata option"

record vector_record =
  r_id :: string
  r_vector :: "jsnum list"
  r_metadata :: metadata

record created_record = vector_record +
  r_document_id :: string
  insertedId :: string

text \<open>\<^verbatim>\<open>{...metadata}\<close>: spreading \<^verbatim>\<open>undefined\<close> adds no field.\<close>

definition spread_metadata :: "metadata option \<Rightarrow> metadata" where
  "spread_metadata m = (case m of None \<Rightarrow> Map.empty | Some obj \<Rightarrow> obj)"

definition new_document :: "environment \<Rightarrow> nat \<Rightarrow> vector_data \<Rightarrow> document" where
  "new_document env k vectorData =
     \<lparr>d_id = uuidv4 env k,
      d_vector = v_vector vectorData,
      d_metadata = (spread_metadata (v_metadata vectorData))
        (''dimensions'' \<mapsto> JNumber (Num (real (length (v_vector vectorData)))),
         ''created_at'' \<mapsto> JString (now env (2 * k)),
         ''updated_at'' \<mapsto> JString (now env (2 * k + 1)))\<rparr>"

definition to_record :: "'a document_scheme \<Rightarrow> vector_record" where
  "to_record d = \<lparr>r_id = d_id d, r_vector = d_vector d, r_metadata = d_metadata d\<rparr>"

definition createVector ::
  "environment \<Rightarrow> collection \<Rightarrow> vector_data \<Rightarrow> (js_error + created_record) \<times> collection" where
  "createVector env c vectorData =
     (let doc = new_document env 0 vectorData
      in case insertOne c doc of
           Inl e \<Rightarrow> (rethrow ''Failed to create vector: '' (Inl e), c)
         | Inr (inserted, c') \<Rightarrow>
             (Inr \<lparr>r_id = d_id doc, r_vector = d_vector doc, r_metadata = d_metadata doc,
                   r_document_id = d_id doc, insertedId = inserted\<rparr>, c'))"

definition getVectorById :: "collection \<Rightarrow> string \<Rightarrow> js_error + vector_record" where
  "getVectorById c ident =
     rethrow ''Failed to get vector: ''
       (case findOne c ident of
          Inl e \<Rightarrow> Inl e
        | Inr None \<Rightarrow> Inl (Error ''Vector not found'')
        | Inr (Some d) \<Rightarrow> Inr (to_record d))"

record update_data =
  u_vector :: "jsnum list option"
  u_metadata :: "metadata option"

text \<open>
  The update document of \<^verbatim>\<open>updateVector\<close>: \<^verbatim>\<open>vector\<close> when one is supplied; \<^verbatim>\<open>metadata\<close>,
  with \<^verbatim>\<open>updated_at\<close> and (when a vector is supplied too) \<^verbatim>\<open>dimensions\<close> added, when
  metadata is supplied.
\<close>

definition build_update :: "environment \<Rightarrow> update_data \<Rightarrow> update_doc" where
  "build_update env updateData =
     \<lparr>set_vector = u_vector updateData,
      set_metadata =
        (case u_metadata updateData of
           None \<Rightarrow> None
         | Some m \<Rightarrow>
             (let m1 = m(''updated_at'' \<mapsto> JString (now env 0))
              in case u_vector updateData of
                   None \<Rightarrow> Some m1
                 | Some v \<Rightarrow> Some (m1(''dimensions'' \<mapsto> JNumber (Num (real (length v)))))))\<rparr>"

definition updateVector ::
  "environment \<Rightarrow> collection \<Rightarrow> string \<Rightarrow> update_data \<Rightarrow> (js_error + vector_record) \<times> collection" where
  "updateVector env c ident updateData =
     (case findOneAndUpdate c ident (build_update env updateData) of
        Inl e \<Rightarrow> (rethrow ''Failed to update vector: '' (Inl e), c)
      | Inr (None, c') \<Rightarrow> (rethrow ''Failed to update vector: '' (Inl (Error ''Vector not found'')), c')
      | Inr (Some d, c') \<Rightarrow> (Inr (to_record d), c'))"

definition deleteVector ::
  "collection \<Rightarrow> string \<Rightarrow> (js_error + (bool \<times> string)) \<times> collection" where
  "deleteVector c ident =
     (case deleteOne c ident of
        Inl e \<Rightarrow> (rethrow ''Failed to delete vector: '' (Inl e), c)
      | Inr (deletedCount, c') \<Rightarrow>
          (if deletedCount = 0
           then (rethrow ''Failed to delete vector: '' (Inl (Error ''Vector not found'')), c')
           else (Inr (True, ident), c')))"

record batch_result =
  inserted_count :: nat
  inserted_ids :: "string list"
  batch_vectors :: "vector_record list"

definition createVectorsBatch ::
  "environment \<Rightarrow> collection \<Rightarrow> vector_data list \<Rightarrow> (js_error + batch_result) \<times> collection" where
  "createVectorsBatch env c vectorsData =
     (let documents = map (\<lambda>(k, vectorData). new_document env k vectorData) (enumerate 0 vectorsData)
      in case insertMany c documents of
           Inl e \<Rightarrow> (rethrow ''Failed to create vectors batch: '' (Inl e), c)
         | Inr ((n, ids), c') \<Rightarrow>
             (Inr \<lparr>inserted_count = n, inserted_ids = ids, batch_vectors = map to_record documents\<rparr>,
              c'))"

subsection \<open>Listing\<close>

text \<open>
  \<^verbatim>\<open>page\<close> and \<^verbatim>\<open>limit\<close> are integers when they are given (\<^verbatim>\<open>parseInt\<close> leaves an integer
  as it is); \<^verbatim>\<open>Math.ceil\<close> rounds a finite number up.
\<close>

fun jceil :: "jsnum \<Rightarrow> jsnum" where
  "jceil (Num x) = Num (of_int \<lceil>x\<rceil>)"
| "jceil n = n"

record list_options =
  o_page :: "int option"
  o_limit :: "int option"
  o_user_id :: jsval
  o_source_type :: jsval
  o_sort :: "string option"

record page_result =
  current_page :: int
  per_page :: int
  total_items :: int
  total_pages :: jsnum
  has_next :: bool
  has_prev :: bool

record list_result =
  l_vectors :: "vector_record list"
  l_pagination :: page_result

definition list_filter :: "list_options \<Rightarrow> (string \<times> jsval) list" where
  "list_filter options =
     (let f0 = [];
          f1 = (if truthy (o_user_id options)
                then set_field ''metadata.user_id'' (o_user_id options) f0 else f0);
          f2 = (if truthy (o_source_type options)
                then set_field ''metadata.source_type'' (o_source_type options) f1 else f1)
      in f2)"

definition starts_with_minus :: "string \<Rightarrow> bool" where
  "starts_with_minus s = (case s of [] \<Rightarrow> False | ch # _ \<Rightarrow> ch = CHR ''-'')"

text \<open>
  The options of the \<^verbatim>\<open>find\<close> call: the sort object from the sort token (a leading
  \<^verbatim>\<open>-\<close> is descending), \<^verbatim>\<open>limit\<close>, and \<^verbatim>\<open>skip = (page - 1) * limit\<close>.
\<close>

definition list_find_options :: "list_options \<Rightarrow> find_options" where
  "list_find_options options =
     (let page = (case o_page options of None \<Rightarrow> 1 | Some p \<Rightarrow> p);
          limit = (case o_limit options of None \<Rightarrow> 10 | Some l \<Rightarrow> l);
          sort_s = (case o_sort options of None \<Rightarrow> ''-created_at'' | Some s \<Rightarrow> s);
          skip = (page - 1) * limit;
          sortField = (if starts_with_minus sort_s then tl sort_s else sort_s);
          sortDirection = (if starts_with_minus sort_s then - 1 else 1)
      in \<lparr>opt_sort = SortField (''metadata.'' @ sortField) sortDirection,
          opt_limit = limit, opt_skip = Some skip, opt_includeSimilarity = False\<rparr>)"

definition listVectors :: "query_store \<Rightarrow> list_options \<Rightarrow> js_error + list_result" where
  "listVectors store options =
     rethrow ''Failed to list vectors: ''
       (let page = (case o_page options of None \<Rightarrow> 1 | Some p \<Rightarrow> p);
            limit = (case o_limit options of None \<Rightarrow> 10 | Some l \<Rightarrow> l);
            flt = list_filter options
        in case find_docs store flt (list_find_options options) of
             Inl e \<Rightarrow> Inl e
           | Inr cursor \<Rightarrow>
               (case countDocuments store flt of
                  Inl e \<Rightarrow> Inl e
                | Inr total_n \<Rightarrow>
                    Inr \<lparr>l_vectors = map to_record cursor,
                         l_pagination =
                           \<lparr>current_page = page,
                            per_page = limit,
                            total_items = total_n,
                            total_pages = jceil (jdiv (Num (of_int total_n)) (Num (of_int limit))),
                            has_next = (page * limit < total_n),
                            has_prev = (1 < page)\<rparr>\<rparr>))"

subsection \<open>Similarity search\<close>

record similarity_filters =
  f_user_id :: jsval
  f_source_type :: jsval
  f_source_id :: jsval
  f_tags :: jsval
  f_created_after :: jsval
  f_created_before :: jsval

record similarity_options =
  s_limit :: "int option"
  s_filters :: "similarity_filters option"

record similar_result = vector_record +
  similarity_score :: jsval

record similarity_response =
  query_vector_dimensions :: nat
  results :: "similar_result list"
  total_results :: nat

definition no_filters :: similarity_filters where
  "no_filters = \<lparr>f_user_id = JUndefined, f_source_type = JUndefined, f_source_id = JUndefined,
                  f_tags = JUndefined, f_created_after = JUndefined, f_created_before = JUndefined\<rparr>"

text \<open>\<^verbatim>\<open>filter[key] || {}\<close>, then spread: the fields of the object found, none otherwise.\<close>

definition fields_or_empty :: "(string \<times> jsval) list \<Rightarrow> string \<Rightarrow> (string \<times> jsval) list" where
  "fields_or_empty flt k =
     (case map_of flt k of
        Some (JObject kvs) \<Rightarrow> kvs
      | _ \<Rightarrow> [])"

definition similarity_filter :: "similarity_filters \<Rightarrow> (string \<times> jsval) list" where
  "similarity_filter filters =
     (let f0 = [];
          f1 = (if truthy (f_user_id filters)
                then set_field ''metadata.user_id'' (f_user_id filters) f0 else f0);
          f2 = (if truthy (f_source_type filters)
                then set_field ''metadata.source_type'' (f_source_type filters) f1 else f1);
          f3 = (if truthy (f_source_id filters)
                then set_field ''metadata.source_id'' (f_source_id filters) f2 else f2);
          f4 = (if truthy (f_tags filters)
                then set_field ''metadata.tags'' (JObject [(''$in'', f_tags filters)]) f3 else f3);
          f5 = (if truthy (f_created_after filters)
                then set_field ''metadata.created_at''
                       (JObject [(''$gte'', f_created_after filters)]) f4
                else f4);
          f6 = (if truthy (f_created_before filters)
                then set_field ''metadata.created_at''
                       (JObject (set_field ''$lte'' (f_created_before filters)
                                   (fields_or_empty f5 ''metadata.created_at''))) f5
                else f5)
      in f6)"

definition to_similar :: "found \<Rightarrow> similar_result" where
  "to_similar doc =
     \<lparr>r_id = d_id doc, r_vector = d_vector doc, r_metadata = d_metadata doc,
      similarity_score = similarity doc\<rparr>"

definition similarity_find_options :: "jsnum list \<Rightarrow> similarity_options \<Rightarrow> find_options" where
  "similarity_find_options queryVector options =
     \<lparr>opt_sort = SortVector queryVector,
      opt_limit = (case s_limit options of None \<Rightarrow> 10 | Some l \<Rightarrow> l),
      opt_skip = None,
      opt_includeSimilarity = True\<rparr>"

definition findSimilarVectors ::
  "query_store \<Rightarrow> jsnum list \<Rightarrow> similarity_options \<Rightarrow> js_error + similarity_response" where
  "findSimilarVectors store queryVector options =
     rethrow ''Failed to find similar vectors: ''
       (let filters = (case s_filters options of None \<Rightarrow> no_filters | Some f \<Rightarrow> f)
        in case find_docs store (similarity_filter filters)
                  (similarity_find_options queryVector options) of
             Inl e \<Rightarrow> Inl e
           | Inr cursor \<Rightarrow>
               (let res = map to_similar cursor
                in Inr \<lparr>query_vector_dimensions = length queryVector,
                        results = res,
                        total_results = length res\<rparr>))"

section \<open>Routes\<close>

text \<open>
  A handler answers with \<^verbatim>\<open>res.json\<close> (status 200), answers 404 with an error text, or
  hands the error to \<^verbatim>\<open>next\<close>, the error-handling middleware.
\<close>

datatype 'a reply = Success 'a | Status404 string | Next js_error

definition not_found_or_next :: "js_error \<Rightarrow> 'a reply" where
  "not_found_or_next e =
     (if message e = ''Vector not found'' then Status404 ''Vector not found'' else Next e)"

definition get_route :: "collection \<Rightarrow> string \<Rightarrow> vector_record reply" where
  "get_route c ident =
     (case getVectorById c ident of
        Inr v \<Rightarrow> Success v
      | Inl e \<Rightarrow> not_found_or_next e)"

definition put_route ::
  "environment \<Rightarrow> collection \<Rightarrow> string \<Rightarrow> update_data \<Rightarrow> vector_record reply \<times> collection" where
  "put_route env c ident body =
     (case updateVector env c ident body of
        (Inr v, c') \<Rightarrow> (Success v, c')
      | (Inl e, c') \<Rightarrow> (not_found_or_next e, c'))"

definition delete_route :: "collection \<Rightarrow> string \<Rightarrow> (bool \<times> string) reply \<times> collection" where
  "delete_route c ident =
     (case deleteVector c ident of
        (Inr r, c') \<Rightarrow> (Success r, c')
      | (Inl e, c') \<Rightarrow> (not_found_or_next e, c'))"

section \<open>Sample data\<close>

text \<open>A clock, a stored record, and stores with fixed answers, for concrete runs.\<close>

definition sample_env :: environment where
  "sample_env = \<lparr>uuidv4 = (\<lambda>k. ''id-new''), now = (\<lambda>k. ''2024-02-02T00:00:00.000Z'')\<rparr>"

definition sample_doc :: document where
  "sample_doc =
     \<lparr>d_id = ''v1'',
      d_vector = [Num 1, Num 2],
      d_metadata =
        [''user_id'' \<mapsto> JString ''u1'',
         ''dimensions'' \<mapsto> JNumber (Num 2),
         ''created_at'' \<mapsto> JString ''2024-01-01T00:00:00.000Z'',
         ''updated_at'' \<mapsto> JString ''2024-01-01T00:00:00.000Z'']\<rparr>"

definition sample_collection :: collection where
  "sample_collection = \<lparr>docs = [sample_doc], failure = None\<rparr>"

definition counting_store :: "int \<Rightarrow> query_store" where
  "counting_store n = \<lparr>find_docs = (\<lambda>flt opts. Inr []), countDocuments = (\<lambda>flt. Inr n)\<rparr>"

definition page_request :: "int \<Rightarrow> int \<Rightarrow> list_options" where
  "page_request p l =
     \<lparr>o_page = Some p, o_limit = Some l, o_user_id = JUndefined,
      o_source_type = JUndefined, o_sort = None\<rparr>"

definition ranked_store :: query_store where
  "ranked_store =
     \<lparr>find_docs = (\<lambda>flt opts.
        Inr [\<lparr>d_id = ''a'', d_vector = [Num 1, Num 0], d_metadata = Map.empty,
              similarity = JNumber (Num 1)\<rparr>,
             \<lparr>d_id = ''b'', d_vector = [Num 0, Num 1], d_metadata = Map.empty,
              similarity = JNumber (Num (1 / 2))\<rparr>]),
      countDocuments = (\<lambda>flt. Inr 2)\<rparr>"

definition failing_store :: query_store where
  "failing_store =
     \<lparr>find_docs = (\<lambda>flt opts. Inl (Error ''timeout'')),
      countDocuments = (\<lambda>flt. Inl (Error ''timeout''))\<rparr>"

definition dated_filters :: similarity_filters where
  "dated_filters =
     no_filters\<lparr>f_created_after := JString ''2024-01-01'', f_created_before := JString ''2024-12-31''\<rparr>"

section \<open>Properties of the vector utilities\<close>

subsection \<open>Rounding\<close>

lemma pow2_below_bound: "n < 1024 \<Longrightarrow> (2::real) ^ n < overflow_bound"
  unfolding overflow_bound_def by (rule power_strict_increasing) simp_all

lemma pow2_above_bound: "1024 \<le> n \<Longrightarrow> overflow_bound \<le> (2::real) ^ n"
  unfolding overflow_bound_def by (rule power_increasing) simp_all

lemma overflow_bound_pos: "0 < overflow_bound"
  by (simp add: overflow_bound_def)


lemma round_even_of_int: "round_even (of_int j) = j"
  by (simp add: round_even_def)

lemma fl_zero: "fl 0 = Num 0"
  using overflow_bound_pos by (simp add: fl_def round_to_double_def)

lemma round_to_double_scaled:
  assumes "x \<noteq> 0" and "x = of_int j * 2 powi (binade x - 52)"
  shows "round_to_double x = x"
proof -
  have "x / 2 powi (binade x - 52) = of_int j"
    using assms(2) by (metis nonzero_mult_div_cancel_right power_int_eq_0_iff zero_neq_numeral)
  then show ?thesis using assms by (simp add: round_to_double_def round_even_of_int)
qed

lemma binade_pow2: "binade (2 ^ n) = int n"
  by (simp add: binade_def)

lemma round_to_double_pow2: "round_to_double (2 ^ n) = 2 ^ n"
proof (rule round_to_double_scaled[where j = "2 ^ 52"])
  show "(2::real) ^ n \<noteq> 0" by simp
  have "(2::real) powi (int n - 52) = 2 powi int n / 2 powi 52"
    by (rule power_int_diff) simp
  then show "(2::real) ^ n = of_int (2 ^ 52) * 2 powi (binade (2 ^ n) - 52)"
    by (simp add: binade_pow2)
qed

lemma fl_pow2_small: "n < 1024 \<Longrightarrow> fl (2 ^ n) = Num (2 ^ n)"
  using pow2_below_bound[of n] by (simp add: fl_def round_to_double_pow2)

lemma fl_pow2_large: "1024 \<le> n \<Longrightarrow> fl (2 ^ n) = PosInf"
  using pow2_above_bound[of n] by (simp add: fl_def round_to_double_pow2)

lemma binade_of_int:
  assumes "n \<noteq> 0" and "\<bar>n\<bar> < 2 ^ 53"
  shows "0 \<le> binade (of_int n)" and "binade (of_int n) \<le> 52"
proof -
  have pos: "1 \<le> \<bar>real_of_int n\<bar>" using assms(1) by linarith
  then have "0 \<le> log 2 \<bar>real_of_int n\<bar>" by simp
  then show "0 \<le> binade (of_int n)" by (simp add: binade_def)
  have "real_of_int \<bar>n\<bar> < real_of_int (2 ^ 53)" using assms(2) by (simp only: of_int_less_iff)
  then have "\<bar>real_of_int n\<bar> < 2 ^ 53" by simp
  then have "\<bar>real_of_int n\<bar> < 2 powr 53" by simp
  moreover have "0 < \<bar>real_of_int n\<bar>" using pos by linarith
  ultimately have "log 2 \<bar>real_of_int n\<bar> < 53"
    by (subst log_less_iff) simp_all
  then have "\<lfloor>log 2 \<bar>real_of_int n\<bar>\<rfloor> \<le> 52" by linarith
  then show "binade (of_int n) \<le> 52" by (simp add: binade_def)
qed

lemma fl_of_int:
  assumes "\<bar>n\<bar> < 2 ^ 53"
  shows "fl (of_int n) = Num (of_int n)"
proof (cases "n = 0")
  case True
  then show ?thesis by (simp add: fl_zero)
next
  case False
  define e where "e = binade (of_int n)"
  have e: "0 \<le> e" "e \<le> 52" using binade_of_int[OF False assms] by (simp_all add: e_def)
  define k where "k = nat (52 - e)"
  have pk: "(2::real) powi (e - 52) = 1 / 2 ^ k"
  proof -
    have "e - 52 = - int k" using e by (simp add: k_def)
    then show ?thesis by (simp add: power_int_minus divide_simps)
  qed
  have "real_of_int n = of_int (n * 2 ^ k) * 2 powi (binade (of_int n) - 52)"
    unfolding e_def[symmetric] pk by simp
  moreover have "real_of_int n \<noteq> 0" using False by simp
  ultimately have "round_to_double (of_int n) = of_int n"
    by (rule round_to_double_scaled[rotated])
  moreover have "\<bar>real_of_int n\<bar> < overflow_bound"
  proof -
    have "real_of_int \<bar>n\<bar> < real_of_int (2 ^ 53)" using assms by (simp only: of_int_less_iff)
    then have "\<bar>real_of_int n\<bar> < 2 ^ 53" by simp
    also have "\<dots> < overflow_bound" by (rule pow2_below_bound) simp
    finally show ?thesis .
  qed
  ultimately show ?thesis by (simp add: fl_def)
qed


lemma fl_numeral:
  "\<bar>numeral k :: int\<bar> < 2 ^ 53 \<Longrightarrow> fl (numeral k) = Num (numeral k)"
  using fl_of_int[of "numeral k"] by simp

lemma fl_one: "fl 1 = Num 1"
  using fl_of_int[of 1] by simp

lemma jdivide_NaN: "jdivide d NaN = NaN"
  by (cases d) simp_all

lemma round_even_le: "m \<le> of_int n \<Longrightarrow> round_even m \<le> n"
proof -
  assume a: "m \<le> of_int n"
  then have f: "\<lfloor>m\<rfloor> \<le> n" by (simp add: floor_le_iff)
  show ?thesis
  proof (cases "\<lfloor>m\<rfloor> = n")
    case True
    with a have "m - of_int \<lfloor>m\<rfloor> \<le> 0" by simp
    then show ?thesis using True by (simp add: round_even_def Let_def)
  next
    case False
    with f have "\<lfloor>m\<rfloor> + 1 \<le> n" by simp
    then show ?thesis by (simp add: round_even_def Let_def)
  qed
qed

lemma round_even_gt: "of_int n + 1 / 2 < m \<Longrightarrow> n < round_even m"
proof -
  assume a: "of_int n + 1 / 2 < m"
  then have f: "n \<le> \<lfloor>m\<rfloor>" by (simp add: le_floor_iff)
  show ?thesis
  proof (cases "\<lfloor>m\<rfloor> = n")
    case True
    with a have "1 / 2 < m - of_int \<lfloor>m\<rfloor>" by simp
    then show ?thesis using True by (simp add: round_even_def Let_def)
  next
    case False
    with f have "n < \<lfloor>m\<rfloor>" by simp
    then show ?thesis by (simp add: round_even_def Let_def)
  qed
qed

lemma count_quotient_rounded:
  assumes t: "1 \<le> t" "t < 2 ^ 53" and l: "1 \<le> l" "l < 2 ^ 53"
  shows "\<exists>r. fl (of_int t / of_int l) = Num r \<and> \<lceil>r\<rceil> = \<lceil>real_of_int t / of_int l\<rceil>"
proof -
  define q where "q = real_of_int t / of_int l"
  define c where "c = \<lceil>q\<rceil>"
  define e where "e = \<lfloor>log 2 q\<rfloor>"
  have lpos: "0 < real_of_int l" using l by simp
  have tr: "real_of_int t < 2 ^ 53" "real_of_int l < 2 ^ 53"
    using t l by (metis of_int_less_iff of_int_numeral of_int_power)+
  have qpos: "0 < q" using t l by (simp add: q_def)
  have q_le_t: "q \<le> of_int t"
  proof -
    have "real_of_int t / of_int l \<le> of_int t / 1"
      using t l by (intro divide_left_mono) simp_all
    then show ?thesis by (simp add: q_def)
  qed
  have q_lower: "1 / 2 ^ 53 < q"
  proof -
    have "1 / 2 ^ 53 < 1 / real_of_int l" using tr lpos by (simp add: divide_simps)
    also have "\<dots> \<le> q" using t lpos by (simp add: q_def divide_simps)
    finally show ?thesis .
  qed
  have e_hi: "e \<le> 52"
  proof -
    have "q < 2 powr 53" using q_le_t tr by simp
    then have "log 2 q < 53" using qpos by (subst log_less_iff) simp_all
    then show ?thesis unfolding e_def by linarith
  qed
  have e_lo: "- 53 \<le> e"
  proof -
    have "2 powr (- 53) = 1 / (2::real) ^ 53" by (simp add: powr_minus divide_simps)
    with q_lower have "2 powr (- 53) < q" by simp
    then have "- 53 < log 2 q" using qpos by (subst less_log_iff) simp_all
    then show ?thesis unfolding e_def by linarith
  qed
  have bin: "binade q = e" using e_lo qpos by (simp add: binade_def e_def)
  have pe: "2 powi e \<le> q"
  proof -
    have "of_int e \<le> log 2 q" unfolding e_def by simp
    then have "2 powr (of_int e) \<le> q" using qpos by (subst (asm) le_log_iff) simp_all
    then show ?thesis by (simp add: powr_real_of_int')
  qed
  define k where "k = nat (52 - e)"
  have pk: "(2::real) powi (e - 52) = 1 / 2 ^ k"
  proof -
    have "e - 52 = - int k" using e_hi by (simp add: k_def)
    then show ?thesis by (simp add: power_int_minus divide_simps)
  qed
  have pk2: "(2::real) ^ k * 2 powi e = 2 ^ 52"
  proof -
    have "(2::real) powi (e - 52) = 2 powi e / 2 powi 52" by (rule power_int_diff) simp
    with pk have "1 / (2::real) ^ k = 2 powi e / 2 ^ 52" by simp
    then show ?thesis by (simp add: divide_simps mult.commute)
  qed
  define m where "m = q * 2 ^ k"
  have r: "round_to_double q = of_int (round_even m) / 2 ^ k"
    using qpos by (simp add: round_to_double_def bin pk m_def)
  have c1: "of_int c - 1 < q" and c2: "q \<le> of_int c" unfolding c_def by linarith+
  have upper: "round_even m \<le> c * 2 ^ k"
  proof (rule round_even_le)
    have "q * 2 ^ k \<le> of_int c * 2 ^ k" using c2 by (simp add: mult_right_mono)
    then show "m \<le> of_int (c * 2 ^ k)" by (simp add: m_def)
  qed
  have gap: "1 / of_int l \<le> q - (of_int c - 1)"
  proof -
    have "(of_int c - 1) * real_of_int l < of_int t"
      using c1 lpos by (simp add: q_def pos_less_divide_eq)
    then have "real_of_int ((c - 1) * l) < of_int t" by simp
    then have "(c - 1) * l < t" by (simp only: of_int_less_iff)
    then have "(c - 1) * l + 1 \<le> t" by simp
    then have "real_of_int ((c - 1) * l + 1) \<le> of_int t" by (simp only: of_int_le_iff)
    then have "(of_int c - 1) * real_of_int l + 1 \<le> of_int t" by simp
    then show ?thesis using lpos by (simp add: q_def divide_simps algebra_simps)
  qed
  have spacing: "real_of_int l < 2 * 2 ^ k"
  proof -
    have "2 ^ 52 = (2::real) ^ k * 2 powi e" using pk2 by simp
    also have "\<dots> \<le> 2 ^ k * q" using pe by (simp add: mult_left_mono)
    finally have "2 ^ 52 * real_of_int l \<le> 2 ^ k * of_int t"
      using lpos by (simp add: q_def divide_simps mult.commute)
    moreover have "(2::real) ^ k * of_int t < 2 ^ k * 2 ^ 53" using tr by simp
    ultimately have "2 ^ 52 * real_of_int l < 2 ^ k * 2 ^ 53" by linarith
    then show ?thesis by simp
  qed
  have lower: "(c - 1) * 2 ^ k < round_even m"
  proof (rule round_even_gt)
    have "1 / 2 < 2 ^ k / real_of_int l" using spacing lpos by (simp add: divide_simps)
    also have "\<dots> = (1 / of_int l) * 2 ^ k" by simp
    also have "\<dots> \<le> (q - (of_int c - 1)) * 2 ^ k" using gap by (intro mult_right_mono) simp_all
    finally have "1 / 2 < m - (of_int c - 1) * 2 ^ k" by (simp add: m_def algebra_simps)
    then show "real_of_int ((c - 1) * 2 ^ k) + 1 / 2 < m" by simp
  qed
  define r where "r = real_of_int (round_even m) / 2 ^ k"
  have r_hi: "r \<le> of_int c"
  proof -
    from upper have "real_of_int (round_even m) \<le> of_int (c * 2 ^ k)" by (simp only: of_int_le_iff)
    then show ?thesis by (simp add: r_def divide_simps)
  qed
  have r_lo: "of_int c - 1 < r"
  proof -
    from lower have "real_of_int ((c - 1) * 2 ^ k) < of_int (round_even m)" by (simp only: of_int_less_iff)
    then show ?thesis by (simp add: r_def divide_simps)
  qed
  have ceil: "\<lceil>r\<rceil> = c" using r_hi r_lo by (intro ceiling_unique) simp_all
  have "1 \<le> c" using qpos c2 by linarith
  then have "0 < r" using r_lo by simp
  moreover have "c \<le> t" unfolding c_def using q_le_t by (simp add: ceiling_le_iff)
  then have "real_of_int c \<le> of_int t" by (simp only: of_int_le_iff)
  then have "r < 2 ^ 53" using r_hi tr by linarith
  then have "r < overflow_bound" using pow2_below_bound[of 53] by simp
  ultimately have "fl q = Num r" using r by (simp add: fl_def r_def)
  with ceil show ?thesis unfolding q_def c_def by blast
qed

subsection \<open>cosineSimilarity\<close>

lemma cosine_loop_prefix:
  "n \<le> length a \<Longrightarrow> length a = length b \<Longrightarrow>
   fold (cosine_step a b) [0..<n] (Num 0, Num 0, Num 0) =
     (fold (\<lambda>(i, val) sum. jadd sum (jmul val (at_index b i))) (enumerate 0 (take n a)) (Num 0),
      fold (\<lambda>val sum. jadd sum (jmul val val)) (take n a) (Num 0),
      fold (\<lambda>val sum. jadd sum (jmul val val)) (take n b) (Num 0))"
proof (induction n)
  case 0
  then show ?case by simp
next
  case (Suc n)
  then have lt: "n < length a" "n < length b" by simp_all
  from Suc have IH: "fold (cosine_step a b) [0..<n] (Num 0, Num 0, Num 0) =
     (fold (\<lambda>(i, val) sum. jadd sum (jmul val (at_index b i))) (enumerate 0 (take n a)) (Num 0),
      fold (\<lambda>val sum. jadd sum (jmul val val)) (take n a) (Num 0),
      fold (\<lambda>val sum. jadd sum (jmul val val)) (take n b) (Num 0))" by simp
  have "fold (cosine_step a b) [0..<Suc n] (Num 0, Num 0, Num 0) =
        cosine_step a b n (fold (cosine_step a b) [0..<n] (Num 0, Num 0, Num 0))"
    by simp
  also have "\<dots> =
     (fold (\<lambda>(i, val) sum. jadd sum (jmul val (at_index b i))) (enumerate 0 (take (Suc n) a)) (Num 0),
      fold (\<lambda>val sum. jadd sum (jmul val val)) (take (Suc n) a) (Num 0),
      fold (\<lambda>val sum. jadd sum (jmul val val)) (take (Suc n) b) (Num 0))"
    unfolding IH using lt
    by (simp add: enumerate_append_eq take_Suc_conv_app_nth cosine_step_def at_index_def)
  finally show ?case .
qed

lemma cosineSimilarity_loop:
  assumes "length a = length b"
  shows "cosineSimilarity a b =
     Inr (if jmul (magnitude a) (magnitude b) = Num 0 then Num 0
          else jdivide (fold (\<lambda>(i, val) sum. jadd sum (jmul val (at_index b i))) (enumerate 0 a) (Num 0))
                 (jmul (magnitude a) (magnitude b)))"
  using assms cosine_loop_prefix[of "length a" a b]
  by (simp add: cosineSimilarity_def magnitude_def Let_def)


text \<open>
  C5, as amended. For arrays \<open>a\<close> and \<open>b\<close> of numbers, of equal length,
  \<open>cosineSimilarity a b\<close> is 0 when the product of the two magnitudes, as the doubles
  give it, is 0, and otherwise \<open>dotProduct a b\<close> divided by that product; the product is
  0 whenever one magnitude is 0 and the other is finite. For \<open>a\<close> and \<open>b\<close> of unequal length
  it fails with the dimension-mismatch error.
\<close>

theorem cosineSimilarity_formula:
  "(length a = length b \<longrightarrow>
      (\<exists>d. dotProduct a b = Inr d \<and>
           cosineSimilarity a b =
             Inr (if jmul (magnitude a) (magnitude b) = Num 0 then Num 0
                  else jdivide d (jmul (magnitude a) (magnitude b)))))
   \<and> (length a = length b \<longrightarrow>
        (magnitude a = Num 0 \<and> isFinite (magnitude b)
         \<or> isFinite (magnitude a) \<and> magnitude b = Num 0) \<longrightarrow>
        cosineSimilarity a b = Inr (Num 0))
   \<and> (length a \<noteq> length b \<longrightarrow> cosineSimilarity a b = Inl DimensionMismatch)"
proof (intro conjI impI)
  assume len: "length a = length b"
  then show "\<exists>d. dotProduct a b = Inr d \<and>
           cosineSimilarity a b =
             Inr (if jmul (magnitude a) (magnitude b) = Num 0 then Num 0
                  else jdivide d (jmul (magnitude a) (magnitude b)))"
    by (simp add: dotProduct_def cosineSimilarity_loop)
next
  assume len: "length a = length b"
    and z: "magnitude a = Num 0 \<and> isFinite (magnitude b)
            \<or> isFinite (magnitude a) \<and> magnitude b = Num 0"
  have "jmul (magnitude a) (magnitude b) = Num 0"
  proof (cases "magnitude a = Num 0 \<and> isFinite (magnitude b)")
    case True
    then obtain y where "magnitude b = Num y" by (cases "magnitude b") simp_all
    with True show ?thesis by (simp add: fl_zero)
  next
    case False
    with z have f: "isFinite (magnitude a)" and b: "magnitude b = Num 0" by blast+
    from f obtain x where "magnitude a = Num x" by (cases "magnitude a") simp_all
    with b show ?thesis by (simp add: fl_zero)
  qed
  then show "cosineSimilarity a b = Inr (Num 0)"
    using len by (simp add: cosineSimilarity_loop)
next
  assume "length a \<noteq> length b"
  then show "cosineSimilarity a b = Inl DimensionMismatch"
    by (simp add: cosineSimilarity_def)
qed

theorem cosineSimilarity_formula_witness:
  "cosineSimilarity [Num 3, Num 4] [Num 3, Num 4] = Inr (Num 1)
   \<and> cosineSimilarity [Num 0, Num 0] [Num 3, Num 4] = Inr (Num 0)
   \<and> cosineSimilarity [Num 1] [Num 4, Num 3] = Inl DimensionMismatch"
proof -
  have s25: "sqrt 25 = 5" by (rule real_sqrt_unique) simp_all
  have m1: "magnitude [Num 3, Num 4] = Num 5"
    by (simp add: magnitude_def fl_numeral fl_zero s25)
  have m0: "magnitude [Num 0, Num 0] = Num 0" by (simp add: magnitude_def fl_zero)
  have d1: "dotProduct [Num 3, Num 4] [Num 3, Num 4] = Inr (Num 25)"
    by (simp add: dotProduct_def enumerate_eq_zip at_index_def fl_numeral)
  show ?thesis
    using cosineSimilarity_formula[of "[Num 3, Num 4]" "[Num 3, Num 4]"]
          cosineSimilarity_formula[of "[Num 0, Num 0]" "[Num 3, Num 4]"]
          cosineSimilarity_formula[of "[Num 1]" "[Num 4, Num 3]"]
    by (simp add: m1 m0 d1 fl_numeral fl_one)
qed

text \<open>
  C5 as stated fails where a squared norm overflows: the magnitude of \<open>[0]\<close> is 0, that
  of \<open>[2\<^sup>6\<^sup>0\<^sup>0]\<close> is infinite, their product is NaN, and so is the result.
\<close>

theorem cosineSimilarity_overflow:
  "magnitude [Num 0] = Num 0
   \<and> cosineSimilarity [Num 0] [Num (2 ^ 600)] = Inr NaN"
proof -
  have sq: "(2::real) ^ 600 * 2 ^ 600 = 2 ^ 1200" by (simp flip: power_add)
  have m0: "magnitude [Num 0] = Num 0" by (simp add: magnitude_def fl_zero)
  have mb: "magnitude [Num (2 ^ 600)] = PosInf"
    unfolding magnitude_def by (simp only: fold_simps jmul.simps sq fl_pow2_large jadd.simps jsqrt.simps) 
  have "jmul (magnitude [Num 0]) (magnitude [Num (2 ^ 600)]) = NaN"
    unfolding m0 mb by (simp add: signed_inf_def)
  then have "cosineSimilarity [Num 0] [Num (2 ^ 600)] = Inr NaN"
    using cosineSimilarity_loop[of "[Num 0]" "[Num (2 ^ 600)]"] by (simp add: jdivide_NaN)
  with m0 show ?thesis by simp
qed

subsection \<open>validateVector and isValidVector\<close>

lemma validateVector_NaN:
  "JNumber NaN \<in> set vals \<Longrightarrow> validateVector (JArray vals) expected envMax = Inl InvalidNumbers"
proof -
  assume mem: "JNumber NaN \<in> set vals"
  have "\<not> valid_number (JNumber NaN)" by simp
  with mem have "\<not> list_all valid_number vals" unfolding list_all_iff by blast
  moreover from mem have "vals \<noteq> []" by auto
  ultimately show ?thesis by (simp add: validateVector_def)
qed

lemma isValidVector_nonfinite:
  "JNumber n \<in> set vector \<Longrightarrow> \<not> isFinite n \<Longrightarrow> \<not> isValidVector vector"
proof -
  assume mem: "JNumber n \<in> set vector" and "\<not> isFinite n"
  then have "\<not> finite_number (JNumber n)" by simp
  with mem show ?thesis unfolding isValidVector_def list_all_iff by blast
qed

lemma validateVector_success:
  "validateVector v expected envMax = Inr ok \<Longrightarrow> \<exists>vals. v = JArray vals \<and> list_all valid_number vals"
  by (cases v) (auto simp: validateVector_def Let_def split: if_splits)

text \<open>
  C4, as amended. On every array with a NaN element \<open>validateVector\<close> fails with
  \<open>InvalidNumbers\<close>; on every array with a non-finite element (NaN or an infinity)
  \<open>isValidVector\<close> returns false; and \<open>validateVector\<close> succeeds only on an array whose
  every element is a number that is not NaN.
\<close>

theorem validateVector_rejects_NaN:
  "(JNumber NaN \<in> set vals \<longrightarrow> validateVector (JArray vals) expected envMax = Inl InvalidNumbers)
   \<and> (JNumber n \<in> set vals \<longrightarrow> \<not> isFinite n \<longrightarrow> isValidVector vals = False)
   \<and> (validateVector v expected envMax = Inr ok \<longrightarrow>
        (\<exists>elems. v = JArray elems \<and> list_all valid_number elems))"
  using validateVector_NaN[of vals expected envMax] isValidVector_nonfinite[of n vals]
        validateVector_success[of v expected envMax ok]
  by blast

theorem validateVector_rejects_NaN_witness:
  "validateVector (JArray [JNumber (Num 1), JNumber NaN]) JNull NaN = Inl InvalidNumbers
   \<and> isValidVector [JNumber (Num 1), JNumber NaN] = False
   \<and> isValidVector [JNumber (Num 1), JNumber PosInf] = False
   \<and> list_all valid_number [JNumber (Num 1), JNumber PosInf]"
  using validateVector_rejects_NaN[where vals = "[JNumber (Num 1), JNumber NaN]" and n = NaN
          and expected = JNull and envMax = NaN
          and v = "JArray [JNumber (Num 1), JNumber PosInf]" and ok = True]
        validateVector_rejects_NaN[where vals = "[JNumber (Num 1), JNumber PosInf]" and n = PosInf
          and expected = JNull and envMax = NaN
          and v = "JArray [JNumber (Num 1), JNumber PosInf]" and ok = True]
  by (simp add: validateVector_def)

text \<open>
  C4 as stated fails on an array with an infinite element: with no expected dimension
  and the default maximum \<open>validateVector\<close> returns true on it, while \<open>isValidVector\<close>
  returns false.
\<close>

theorem validateVector_accepts_Infinity:
  "validateVector (JArray [JNumber (Num 1), JNumber PosInf]) JNull NaN = Inr True
   \<and> isValidVector [JNumber (Num 1), JNumber PosInf] = False"
  by (simp add: validateVector_def isValidVector_def)

subsection \<open>calculateVectorStatistics\<close>

lemma collect_dimension_prefix:
  assumes "length (dimension_stats stats) = n" "length dv = n"
  shows "k \<le> n \<Longrightarrow> fold (collect_dimension v) [0..<k] (stats, dv) =
     (stats\<lparr>dimension_stats :=
         map (\<lambda>i. if i < k then seen (at_index v i) (dimension_stats stats ! i)
                   else dimension_stats stats ! i) [0..<n]\<rparr>,
      map (\<lambda>i. if i < k then dv ! i @ [at_index v i] else dv ! i) [0..<n])"
proof (induction k)
  case 0
  have "map (\<lambda>i. dimension_stats stats ! i) [0..<n] = dimension_stats stats"
    unfolding assms(1)[symmetric] by (rule map_nth)
  moreover have "map (\<lambda>i. dv ! i) [0..<n] = dv"
    unfolding assms(2)[symmetric] by (rule map_nth)
  ultimately show ?case by simp
next
  case (Suc k)
  then have k: "k < n" by simp
  have IH: "fold (collect_dimension v) [0..<k] (stats, dv) =
     (stats\<lparr>dimension_stats :=
         map (\<lambda>i. if i < k then seen (at_index v i) (dimension_stats stats ! i)
                   else dimension_stats stats ! i) [0..<n]\<rparr>,
      map (\<lambda>i. if i < k then dv ! i @ [at_index v i] else dv ! i) [0..<n])"
    using Suc by simp
  have a: "(map (\<lambda>i. if i < k then seen (at_index v i) (dimension_stats stats ! i)
                   else dimension_stats stats ! i) [0..<n])
            [k := seen (at_index v k) (dimension_stats stats ! k)]
         = map (\<lambda>i. if i < Suc k then seen (at_index v i) (dimension_stats stats ! i)
                   else dimension_stats stats ! i) [0..<n]"
    using k by (intro nth_equalityI) (auto simp: nth_list_update less_Suc_eq)
  have b: "(map (\<lambda>i. if i < k then dv ! i @ [at_index v i] else dv ! i) [0..<n])
            [k := dv ! k @ [at_index v k]]
         = map (\<lambda>i. if i < Suc k then dv ! i @ [at_index v i] else dv ! i) [0..<n]"
    using k by (intro nth_equalityI) (auto simp: nth_list_update less_Suc_eq)
  have "fold (collect_dimension v) [0..<Suc k] (stats, dv) =
        collect_dimension v k (fold (collect_dimension v) [0..<k] (stats, dv))"
    by simp
  also have "\<dots> = (stats\<lparr>dimension_stats :=
         map (\<lambda>i. if i < Suc k then seen (at_index v i) (dimension_stats stats ! i)
                   else dimension_stats stats ! i) [0..<n]\<rparr>,
      map (\<lambda>i. if i < Suc k then dv ! i @ [at_index v i] else dv ! i) [0..<n])"
    unfolding IH using k
    by (simp add: collect_dimension_def Let_def a b)
  finally show ?case .
qed


lemma collect_dimension_all:
  assumes "length (dimension_stats stats) = n" "length dv = n"
  shows "fold (collect_dimension v) [0..<n] (stats, dv) =
     (stats\<lparr>dimension_stats := map (\<lambda>i. seen (at_index v i) (dimension_stats stats ! i)) [0..<n]\<rparr>,
      map (\<lambda>i. dv ! i @ [at_index v i]) [0..<n])"
  using collect_dimension_prefix[OF assms, of n v] by (simp cong: map_cong)

lemma collect_vector_all:
  "length (dimension_stats stats) = n \<Longrightarrow> length dv = n \<Longrightarrow>
   fold (collect_vector n) vs (stats, mags, dv) =
     (stats\<lparr>min_magnitude := fold (\<lambda>m acc. jmin acc m) (map magnitude vs) (min_magnitude stats),
            max_magnitude := fold (\<lambda>m acc. jmax acc m) (map magnitude vs) (max_magnitude stats),
            dimension_stats :=
              map (\<lambda>i. fold seen (map (\<lambda>v. at_index v i) vs) (dimension_stats stats ! i)) [0..<n]\<rparr>,
      mags @ map magnitude vs,
      map (\<lambda>i. dv ! i @ map (\<lambda>v. at_index v i) vs) [0..<n])"
proof (induction vs arbitrary: stats mags dv)
  case Nil
  have "map (\<lambda>i. dimension_stats stats ! i) [0..<n] = dimension_stats stats"
    unfolding Nil(1)[symmetric] by (rule map_nth)
  moreover have "map (\<lambda>i. dv ! i) [0..<n] = dv"
    unfolding Nil(2)[symmetric] by (rule map_nth)
  ultimately show ?case by simp
next
  case (Cons v vs)
  define stats1 where "stats1 = stats\<lparr>min_magnitude := jmin (min_magnitude stats) (magnitude v),
                            max_magnitude := jmax (max_magnitude stats) (magnitude v)\<rparr>"
  define stats2 where "stats2 = stats1\<lparr>dimension_stats :=
      map (\<lambda>i. seen (at_index v i) (dimension_stats stats1 ! i)) [0..<n]\<rparr>"
  define dv2 where "dv2 = map (\<lambda>i. dv ! i @ [at_index v i]) [0..<n]"
  have l1: "length (dimension_stats stats1) = n" using Cons.prems by (simp add: stats1_def)
  have inner: "fold (collect_dimension v) [0..<n] (stats1, dv) = (stats2, dv2)"
    unfolding stats2_def dv2_def by (rule collect_dimension_all[OF l1 Cons.prems(2)])
  have step: "collect_vector n v (stats, mags, dv) = (stats2, mags @ [magnitude v], dv2)"
    using inner by (simp add: collect_vector_def Let_def stats1_def)
  have d2: "length (dimension_stats stats2) = n" "length dv2 = n"
    by (simp_all add: stats2_def stats1_def dv2_def)
  have "fold (collect_vector n) (v # vs) (stats, mags, dv) =
        fold (collect_vector n) vs (stats2, mags @ [magnitude v], dv2)"
    by (simp add: step)
  also have "\<dots> =
     (stats2\<lparr>min_magnitude := fold (\<lambda>m acc. jmin acc m) (map magnitude vs) (min_magnitude stats2),
            max_magnitude := fold (\<lambda>m acc. jmax acc m) (map magnitude vs) (max_magnitude stats2),
            dimension_stats :=
              map (\<lambda>i. fold seen (map (\<lambda>v. at_index v i) vs) (dimension_stats stats2 ! i)) [0..<n]\<rparr>,
      (mags @ [magnitude v]) @ map magnitude vs,
      map (\<lambda>i. dv2 ! i @ map (\<lambda>v. at_index v i) vs) [0..<n])"
    by (rule Cons.IH[OF d2])
  also have "\<dots> =
     (stats\<lparr>min_magnitude := fold (\<lambda>m acc. jmin acc m) (map magnitude (v # vs)) (min_magnitude stats),
            max_magnitude := fold (\<lambda>m acc. jmax acc m) (map magnitude (v # vs)) (max_magnitude stats),
            dimension_stats :=
              map (\<lambda>i. fold seen (map (\<lambda>v. at_index v i) (v # vs)) (dimension_stats stats ! i)) [0..<n]\<rparr>,
      mags @ map magnitude (v # vs),
      map (\<lambda>i. dv ! i @ map (\<lambda>v. at_index v i) (v # vs)) [0..<n])"
    by (simp add: stats2_def stats1_def dv2_def cong: map_cong)
  finally show ?case .
qed


lemma finish_dimension_prefix:
  assumes "length (dimension_stats stats) = n"
  shows "k \<le> n \<Longrightarrow> fold (finish_dimension dv) [0..<k] stats =
     stats\<lparr>dimension_stats :=
         map (\<lambda>i. if i < k
                   then (dimension_stats stats ! i)
                          \<lparr>mean := column_mean (dv ! i), std := column_std (dv ! i) (column_mean (dv ! i))\<rparr>
                   else dimension_stats stats ! i) [0..<n]\<rparr>"
proof (induction k)
  case 0
  have "map (\<lambda>i. dimension_stats stats ! i) [0..<n] = dimension_stats stats"
    unfolding assms[symmetric] by (rule map_nth)
  then show ?case by simp
next
  case (Suc k)
  then have k: "k < n" by simp
  have IH: "fold (finish_dimension dv) [0..<k] stats =
     stats\<lparr>dimension_stats :=
         map (\<lambda>i. if i < k
                   then (dimension_stats stats ! i)
                          \<lparr>mean := column_mean (dv ! i), std := column_std (dv ! i) (column_mean (dv ! i))\<rparr>
                   else dimension_stats stats ! i) [0..<n]\<rparr>"
    using Suc by simp
  have a: "(map (\<lambda>i. if i < k
                   then (dimension_stats stats ! i)
                          \<lparr>mean := column_mean (dv ! i), std := column_std (dv ! i) (column_mean (dv ! i))\<rparr>
                   else dimension_stats stats ! i) [0..<n])
            [k := (dimension_stats stats ! k)
                    \<lparr>mean := column_mean (dv ! k), std := column_std (dv ! k) (column_mean (dv ! k))\<rparr>]
         = map (\<lambda>i. if i < Suc k
                   then (dimension_stats stats ! i)
                          \<lparr>mean := column_mean (dv ! i), std := column_std (dv ! i) (column_mean (dv ! i))\<rparr>
                   else dimension_stats stats ! i) [0..<n]"
    using k by (intro nth_equalityI) (auto simp: nth_list_update less_Suc_eq)
  have "fold (finish_dimension dv) [0..<Suc k] stats =
        finish_dimension dv k (fold (finish_dimension dv) [0..<k] stats)"
    by simp
  also have "\<dots> = stats\<lparr>dimension_stats :=
         map (\<lambda>i. if i < Suc k
                   then (dimension_stats stats ! i)
                          \<lparr>mean := column_mean (dv ! i), std := column_std (dv ! i) (column_mean (dv ! i))\<rparr>
                   else dimension_stats stats ! i) [0..<n]\<rparr>"
    unfolding IH using k by (simp add: finish_dimension_def Let_def a)
  finally show ?case .
qed

lemma fold_seen:
  "fold seen vals d =
     d\<lparr>min_stat := fold (\<lambda>val m. jmin m val) vals (min_stat d),
       max_stat := fold (\<lambda>val m. jmax m val) vals (max_stat d)\<rparr>"
  by (induction vals arbitrary: d) (simp_all add: seen_def)

lemma statistics_columns:
  assumes "vectors = first # others"
  shows "\<exists>st. calculateVectorStatistics vectors = Some st \<and> count st = length vectors
           \<and> dimensions st = length first
           \<and> length (dimension_stats st) = length first
           \<and> (\<forall>i<length first. dimension_stats st ! i =
               \<lparr>min_stat = fold (\<lambda>val m. jmin m val) (map (\<lambda>v. at_index v i) vectors) PosInf,
                max_stat = fold (\<lambda>val m. jmax m val) (map (\<lambda>v. at_index v i) vectors) NegInf,
                mean = column_mean (map (\<lambda>v. at_index v i) vectors),
                std = column_std (map (\<lambda>v. at_index v i) vectors)
                        (column_mean (map (\<lambda>v. at_index v i) vectors))\<rparr>)"
proof -
  define n where "n = length first"
  define stats0 where "stats0 = \<lparr>count = length vectors, dimensions = n, mean_magnitude = Num 0,
                        min_magnitude = PosInf, max_magnitude = NegInf,
                        dimension_stats =
                          replicate n \<lparr>min_stat = PosInf, max_stat = NegInf, mean = Num 0, std = Num 0\<rparr>\<rparr>"
  have loop: "fold (collect_vector n) vectors (stats0, [], replicate n []) =
     (stats0\<lparr>min_magnitude := fold (\<lambda>m acc. jmin acc m) (map magnitude vectors) (min_magnitude stats0),
            max_magnitude := fold (\<lambda>m acc. jmax acc m) (map magnitude vectors) (max_magnitude stats0),
            dimension_stats :=
              map (\<lambda>i. fold seen (map (\<lambda>v. at_index v i) vectors) (dimension_stats stats0 ! i)) [0..<n]\<rparr>,
      [] @ map magnitude vectors,
      map (\<lambda>i. replicate n [] ! i @ map (\<lambda>v. at_index v i) vectors) [0..<n])"
    by (rule collect_vector_all) (simp_all add: stats0_def)
  define stats1 where "stats1 = stats0\<lparr>min_magnitude := fold (\<lambda>m acc. jmin acc m) (map magnitude vectors) (min_magnitude stats0),
            max_magnitude := fold (\<lambda>m acc. jmax acc m) (map magnitude vectors) (max_magnitude stats0),
            dimension_stats :=
              map (\<lambda>i. fold seen (map (\<lambda>v. at_index v i) vectors) (dimension_stats stats0 ! i)) [0..<n]\<rparr>"
  define dv where "dv = map (\<lambda>i. replicate n [] ! i @ map (\<lambda>v. at_index v i) vectors) [0..<n]"
  define stats2 where "stats2 = stats1\<lparr>mean_magnitude :=
                          jdivide (fold (\<lambda>mag sum. jadd sum mag) ([] @ map magnitude vectors) (Num 0))
                               (Num (real (length ([] @ map magnitude vectors))))\<rparr>"
  have "calculateVectorStatistics vectors =
     (case fold (collect_vector n) vectors (stats0, [], replicate n []) of
        (stats1, magnitudes, dimensionValues) \<Rightarrow>
          Some (fold (finish_dimension dimensionValues) [0..<n]
                  (stats1\<lparr>mean_magnitude :=
                          jdivide (fold (\<lambda>mag sum. jadd sum mag) magnitudes (Num 0))
                               (Num (real (length magnitudes)))\<rparr>)))"
    by (simp add: calculateVectorStatistics_def assms(1) Let_def n_def stats0_def)
  also have "\<dots> = Some (fold (finish_dimension dv) [0..<n] stats2)"
    unfolding loop by (simp add: stats1_def dv_def stats2_def)
  also have "fold (finish_dimension dv) [0..<n] stats2 =
     stats2\<lparr>dimension_stats :=
         map (\<lambda>i. if i < n
                   then (dimension_stats stats2 ! i)
                          \<lparr>mean := column_mean (dv ! i), std := column_std (dv ! i) (column_mean (dv ! i))\<rparr>
                   else dimension_stats stats2 ! i) [0..<n]\<rparr>"
    by (rule finish_dimension_prefix) (simp_all add: stats2_def stats1_def)
  finally have res: "calculateVectorStatistics vectors = Some (stats2\<lparr>dimension_stats :=
         map (\<lambda>i. if i < n
                   then (dimension_stats stats2 ! i)
                          \<lparr>mean := column_mean (dv ! i), std := column_std (dv ! i) (column_mean (dv ! i))\<rparr>
                   else dimension_stats stats2 ! i) [0..<n]\<rparr>)" .
  have dvi: "dv ! i = map (\<lambda>v. at_index v i) vectors" if "i < n" for i
    using that by (simp add: dv_def)
  have dsi: "dimension_stats stats2 ! i =
     \<lparr>min_stat = fold (\<lambda>val m. jmin m val) (map (\<lambda>v. at_index v i) vectors) PosInf,
      max_stat = fold (\<lambda>val m. jmax m val) (map (\<lambda>v. at_index v i) vectors) NegInf,
      mean = Num 0, std = Num 0\<rparr>" if "i < n" for i
    using that by (simp add: stats2_def stats1_def stats0_def fold_seen)
  have "count stats2 = length vectors" "dimensions stats2 = length first"
    by (simp_all add: stats2_def stats1_def stats0_def n_def)
  then show ?thesis
    unfolding res by (simp add: dvi dsi n_def[symmetric])
qed

lemma fold_jmin_finite:
  "fold (\<lambda>val m. jmin m val) (map Num xs) (Num a) = Num (fold min xs a)"
  by (induction xs arbitrary: a) (simp_all add: min.commute)

lemma fold_jmax_finite:
  "fold (\<lambda>val m. jmax m val) (map Num xs) (Num a) = Num (fold max xs a)"
  by (induction xs arbitrary: a) (simp_all add: max.commute)

lemma running_min_finite:
  assumes "xs \<noteq> []"
  shows "fold (\<lambda>val m. jmin m val) (map Num xs) PosInf = Num (Min (set xs))"
proof -
  from assms obtain a list where xs: "xs = a # list" by (cases xs) auto
  have "Min (set (a # list)) = fold min list a" by (rule Min.set_eq_fold)
  then show ?thesis unfolding xs by (simp only: list.map fold_simps jmin.simps fold_jmin_finite)
qed

lemma running_max_finite:
  assumes "xs \<noteq> []"
  shows "fold (\<lambda>val m. jmax m val) (map Num xs) NegInf = Num (Max (set xs))"
proof -
  from assms obtain a list where xs: "xs = a # list" by (cases xs) auto
  have "Max (set (a # list)) = fold max list a" by (rule Max.set_eq_fold)
  then show ?thesis unfolding xs by (simp only: list.map fold_simps jmax.simps fold_jmax_finite)
qed

lemma finite_column:
  assumes "list_all (\<lambda>r. length r = n) rows" and "i < n"
  shows "map (\<lambda>v. at_index v i) (map (map Num) rows) = map (\<lambda>r. Num (r ! i)) rows"
  using assms by (induction rows) (simp_all add: at_index_def)

lemma column_min_finite:
  assumes "rows \<noteq> []"
  shows "fold (\<lambda>val m. jmin m val) (map (\<lambda>r. Num (f r)) rows) PosInf = Num (Min (set (map f rows)))"
proof -
  have eq: "map (\<lambda>r. Num (f r)) rows = map Num (map f rows)" by simp
  have "map f rows \<noteq> []" using assms by simp
  then show ?thesis unfolding eq by (rule running_min_finite)
qed

lemma column_max_finite:
  assumes "rows \<noteq> []"
  shows "fold (\<lambda>val m. jmax m val) (map (\<lambda>r. Num (f r)) rows) NegInf = Num (Max (set (map f rows)))"
proof -
  have eq: "map (\<lambda>r. Num (f r)) rows = map Num (map f rows)" by simp
  have "map f rows \<noteq> []" using assms by simp
  then show ?thesis unfolding eq by (rule running_max_finite)
qed

lemma fl_neg_numeral:
  "\<bar>numeral k :: int\<bar> < 2 ^ 53 \<Longrightarrow> fl (- numeral k) = Num (- numeral k)"
  using fl_of_int[of "- numeral k"] by simp

text \<open>
  C8, as amended. \<open>calculateVectorStatistics\<close> returns null on the empty set. On a
  non-empty set of vectors of finite numbers, of one length \<open>n\<close>, it returns a record whose
  \<open>count\<close> is the number of vectors and, for every coordinate \<open>i < n\<close>: \<open>mean\<close> is the sum of
  the coordinate, added up in doubles from 0 in the order of the vectors, divided by the
  count; \<open>std\<close> is the square root of the sum of the squared deviations from that \<open>mean\<close>,
  computed the same way, divided by the count; \<open>min_stat\<close> and \<open>max_stat\<close> are the minimum
  and the maximum of the coordinate.
\<close>

theorem calculateVectorStatistics_columns:
  "calculateVectorStatistics [] = None
   \<and> (rows \<noteq> [] \<longrightarrow> list_all (\<lambda>r. length r = n) rows \<longrightarrow>
        (\<exists>st. calculateVectorStatistics (map (map Num) rows) = Some st
           \<and> count st = length rows
           \<and> (\<forall>i<n. mean (dimension_stats st ! i)
                        = jdivide (fold (\<lambda>val sum. jadd sum val) (map (\<lambda>r. Num (r ! i)) rows) (Num 0))
                                  (Num (real (length rows)))
                   \<and> std (dimension_stats st ! i)
                        = jsqrt (jdivide
                            (fold (\<lambda>val sum. jadd sum (jmul (jsub val (mean (dimension_stats st ! i)))
                                                             (jsub val (mean (dimension_stats st ! i)))))
                               (map (\<lambda>r. Num (r ! i)) rows) (Num 0))
                            (Num (real (length rows))))
                   \<and> min_stat (dimension_stats st ! i) = Num (Min (set (map (\<lambda>r. r ! i) rows)))
                   \<and> max_stat (dimension_stats st ! i) = Num (Max (set (map (\<lambda>r. r ! i) rows))))))"
proof (intro conjI impI)
  show "calculateVectorStatistics [] = None" by (simp add: calculateVectorStatistics_def)
next
  assume ne: "rows \<noteq> []" and len: "list_all (\<lambda>r. length r = n) rows"
  then obtain r rs where rows: "rows = r # rs" by (cases rows) auto
  with len have r: "length r = n" by simp
  have vs: "map (map Num) rows = map Num r # map (map Num) rs" by (simp add: rows)
  from statistics_columns[OF vs] obtain st where
      st: "calculateVectorStatistics (map (map Num) rows) = Some st" and
      cnt: "count st = length (map (map Num) rows)" and
      cols: "\<forall>i<length (map Num r). dimension_stats st ! i =
               \<lparr>min_stat = fold (\<lambda>val m. jmin m val) (map (\<lambda>v. at_index v i) (map (map Num) rows)) PosInf,
                max_stat = fold (\<lambda>val m. jmax m val) (map (\<lambda>v. at_index v i) (map (map Num) rows)) NegInf,
                mean = column_mean (map (\<lambda>v. at_index v i) (map (map Num) rows)),
                std = column_std (map (\<lambda>v. at_index v i) (map (map Num) rows))
                        (column_mean (map (\<lambda>v. at_index v i) (map (map Num) rows)))\<rparr>"
    by blast
  have col: "mean (dimension_stats st ! i)
                        = jdivide (fold (\<lambda>val sum. jadd sum val) (map (\<lambda>r. Num (r ! i)) rows) (Num 0))
                                  (Num (real (length rows)))
                   \<and> std (dimension_stats st ! i)
                        = jsqrt (jdivide
                            (fold (\<lambda>val sum. jadd sum (jmul (jsub val (mean (dimension_stats st ! i)))
                                                             (jsub val (mean (dimension_stats st ! i)))))
                               (map (\<lambda>r. Num (r ! i)) rows) (Num 0))
                            (Num (real (length rows))))
                   \<and> min_stat (dimension_stats st ! i) = Num (Min (set (map (\<lambda>r. r ! i) rows)))
                   \<and> max_stat (dimension_stats st ! i) = Num (Max (set (map (\<lambda>r. r ! i) rows)))"
    if i: "i < n" for i
  proof -
    have c: "map (\<lambda>v. at_index v i) (map (map Num) rows) = map (\<lambda>r. Num (r ! i)) rows"
      by (rule finite_column[OF len i])
    have "i < length (map Num r)" using i r by simp
    with cols have "dimension_stats st ! i =
               \<lparr>min_stat = fold (\<lambda>val m. jmin m val) (map (\<lambda>v. at_index v i) (map (map Num) rows)) PosInf,
                max_stat = fold (\<lambda>val m. jmax m val) (map (\<lambda>v. at_index v i) (map (map Num) rows)) NegInf,
                mean = column_mean (map (\<lambda>v. at_index v i) (map (map Num) rows)),
                std = column_std (map (\<lambda>v. at_index v i) (map (map Num) rows))
                        (column_mean (map (\<lambda>v. at_index v i) (map (map Num) rows)))\<rparr>"
      by blast
    then have "dimension_stats st ! i =
               \<lparr>min_stat = Num (Min (set (map (\<lambda>r. r ! i) rows))),
                max_stat = Num (Max (set (map (\<lambda>r. r ! i) rows))),
                mean = column_mean (map (\<lambda>r. Num (r ! i)) rows),
                std = column_std (map (\<lambda>r. Num (r ! i)) rows)
                        (column_mean (map (\<lambda>r. Num (r ! i)) rows))\<rparr>"
      unfolding c column_min_finite[OF ne] column_max_finite[OF ne] .
    then show ?thesis
      by (simp add: column_mean_def column_std_def Let_def)
  qed
  from cnt have "count st = length rows" by simp
  with st col show "\<exists>st. calculateVectorStatistics (map (map Num) rows) = Some st
           \<and> count st = length rows
           \<and> (\<forall>i<n. mean (dimension_stats st ! i)
                        = jdivide (fold (\<lambda>val sum. jadd sum val) (map (\<lambda>r. Num (r ! i)) rows) (Num 0))
                                  (Num (real (length rows)))
                   \<and> std (dimension_stats st ! i)
                        = jsqrt (jdivide
                            (fold (\<lambda>val sum. jadd sum (jmul (jsub val (mean (dimension_stats st ! i)))
                                                             (jsub val (mean (dimension_stats st ! i)))))
                               (map (\<lambda>r. Num (r ! i)) rows) (Num 0))
                            (Num (real (length rows))))
                   \<and> min_stat (dimension_stats st ! i) = Num (Min (set (map (\<lambda>r. r ! i) rows)))
                   \<and> max_stat (dimension_stats st ! i) = Num (Max (set (map (\<lambda>r. r ! i) rows))))"
    by blast
qed

theorem calculateVectorStatistics_columns_witness:
  "\<exists>st. calculateVectorStatistics
           [[Num 1, Num 2, Num 3], [Num 4, Num 5, Num 6], [Num 7, Num 8, Num 9]] = Some st
      \<and> count st = 3
      \<and> mean (dimension_stats st ! 0) = Num 4
      \<and> std (dimension_stats st ! 0) = fl (sqrt 6)
      \<and> min_stat (dimension_stats st ! 0) = Num 1
      \<and> max_stat (dimension_stats st ! 0) = Num 7"
proof -
  have "[[1, 2, 3], [4, 5, 6], [7, 8, 9 :: real]] \<noteq> []"
    and "list_all (\<lambda>r. length r = 3) [[1, 2, 3], [4, 5, 6], [7, 8, 9 :: real]]"
    by simp_all
  with calculateVectorStatistics_columns[of "[[1, 2, 3], [4, 5, 6], [7, 8, 9]]" 3]
  obtain st where
    st: "calculateVectorStatistics (map (map Num) [[1, 2, 3], [4, 5, 6], [7, 8, 9]]) = Some st"
      "count st = length [[1, 2, 3], [4, 5, 6], [7, 8, 9 :: real]]" and
    cols: "\<forall>i<3. mean (dimension_stats st ! i)
                        = jdivide (fold (\<lambda>val sum. jadd sum val)
                                     (map (\<lambda>r. Num (r ! i)) [[1, 2, 3], [4, 5, 6], [7, 8, 9]]) (Num 0))
                                  (Num (real (length [[1, 2, 3], [4, 5, 6], [7, 8, 9 :: real]])))
                   \<and> std (dimension_stats st ! i)
                        = jsqrt (jdivide
                            (fold (\<lambda>val sum. jadd sum (jmul (jsub val (mean (dimension_stats st ! i)))
                                                             (jsub val (mean (dimension_stats st ! i)))))
                               (map (\<lambda>r. Num (r ! i)) [[1, 2, 3], [4, 5, 6], [7, 8, 9]]) (Num 0))
                            (Num (real (length [[1, 2, 3], [4, 5, 6], [7, 8, 9 :: real]]))))
                   \<and> min_stat (dimension_stats st ! i)
                        = Num (Min (set (map (\<lambda>r. r ! i) [[1, 2, 3], [4, 5, 6], [7, 8, 9]])))
                   \<and> max_stat (dimension_stats st ! i)
                        = Num (Max (set (map (\<lambda>r. r ! i) [[1, 2, 3], [4, 5, 6], [7, 8, 9]])))"
    by blast
  from cols have m: "mean (dimension_stats st ! 0) = Num 4"
    by (simp add: fl_numeral fl_one)
  from cols have "std (dimension_stats st ! 0) = fl (sqrt 6)"
    unfolding m by (simp add: jsub_def fl_numeral fl_neg_numeral fl_zero fl_one)
  moreover from cols have "min_stat (dimension_stats st ! 0) = Num 1"
      "max_stat (dimension_stats st ! 0) = Num 7"
    by simp_all
  ultimately show ?thesis using st m by simp
qed

lemma mean_of_two:
  assumes "fl x = Num x" and "fl (x + x) = PosInf"
  shows "map_option (mean \<circ> hd \<circ> dimension_stats) (calculateVectorStatistics [[Num x], [Num x]])
           = Some PosInf"
proof -
  from statistics_columns[of "[[Num x], [Num x]]" "[Num x]" "[[Num x]]"] obtain st where
      st: "calculateVectorStatistics [[Num x], [Num x]] = Some st" and
      l: "length (dimension_stats st) = length [Num x]" and
      cols: "\<forall>i<length [Num x]. dimension_stats st ! i =
               \<lparr>min_stat = fold (\<lambda>val m. jmin m val) (map (\<lambda>v. at_index v i) [[Num x], [Num x]]) PosInf,
                max_stat = fold (\<lambda>val m. jmax m val) (map (\<lambda>v. at_index v i) [[Num x], [Num x]]) NegInf,
                mean = column_mean (map (\<lambda>v. at_index v i) [[Num x], [Num x]]),
                std = column_std (map (\<lambda>v. at_index v i) [[Num x], [Num x]])
                        (column_mean (map (\<lambda>v. at_index v i) [[Num x], [Num x]]))\<rparr>"
    by blast
  from l have "dimension_stats st \<noteq> []" by auto
  then have "hd (dimension_stats st) = dimension_stats st ! 0" by (rule hd_conv_nth)
  moreover from cols have "mean (dimension_stats st ! 0) = column_mean [Num x, Num x]"
    by (simp add: at_index_def)
  moreover have "column_mean [Num x, Num x] = PosInf"
    using assms by (simp add: column_mean_def)
  ultimately show ?thesis by (simp add: st)
qed

text \<open>
  C8 as stated fails where the sum of a coordinate overflows: two vectors \<open>[2\<^sup>1\<^sup>0\<^sup>2\<^sup>3]\<close> have
  the arithmetic mean \<open>2\<^sup>1\<^sup>0\<^sup>2\<^sup>3\<close>, and \<open>mean\<close> is infinite.
\<close>

theorem calculateVectorStatistics_overflow:
  "map_option (mean \<circ> hd \<circ> dimension_stats)
      (calculateVectorStatistics [[Num (2 ^ 1023)], [Num (2 ^ 1023)]]) = Some PosInf
   \<and> sum_list [2 ^ 1023, 2 ^ 1023] / 2 = (2 ^ 1023 :: real)"
proof -
  have "(2::real) ^ 1023 + 2 ^ 1023 = 2 ^ 1024" by simp
  then have "fl ((2::real) ^ 1023 + 2 ^ 1023) = PosInf" by (simp only: fl_pow2_large)
  moreover have "fl ((2::real) ^ 1023) = Num (2 ^ 1023)" by (rule fl_pow2_small) simp
  ultimately have "map_option (mean \<circ> hd \<circ> dimension_stats)
      (calculateVectorStatistics [[Num (2 ^ 1023)], [Num (2 ^ 1023)]]) = Some PosInf"
    by (rule mean_of_two[rotated])
  moreover have "sum_list [2 ^ 1023, 2 ^ 1023] / 2 = (2 ^ 1023 :: real)" by simp
  ultimately show ?thesis by (rule conjI)
qed

subsection \<open>batchProcess\<close>


lemma js_slice_empty: "js_slice xs i i = []"
  by (simp add: js_slice_def Let_def)

lemma length_js_slice: "length (js_slice xs i j) \<le> length xs"
proof -
  have "length (take n (drop k xs)) \<le> length xs" for n k by simp
  then show ?thesis unfolding js_slice_def Let_def .
qed

lemma length_js_map: "length (js_map f xs) = length xs"
  by (simp add: js_map_def)




lemma batchProcess_loop_no_result:
  fixes vs :: "'a list" and f :: "'a \<Rightarrow> nat \<Rightarrow> 'a list \<Rightarrow> 'b"
  assumes ret: "batchProcess_loop maxArgs vs f b i acc = Some y"
  shows "(b \<le> 0 \<and> i < int (length vs) \<longrightarrow> y = Inl RangeError)
         \<and> \<not> (b \<le> 0 \<and> i < int (length vs) \<and> (b = 0 \<or> length vs \<le> maxArgs))"
proof (rule batchProcess_loop.raw_induct[where P = "\<lambda>maxArgs vs f b i acc y.
          (b \<le> 0 \<and> i < int (length vs) \<longrightarrow> y = Inl RangeError)
          \<and> \<not> (b \<le> 0 \<and> i < int (length vs) \<and> (b = 0 \<or> length vs \<le> maxArgs))", OF _ ret])
  fix loop :: "nat \<Rightarrow> 'a list \<Rightarrow> ('a \<Rightarrow> nat \<Rightarrow> 'a list \<Rightarrow> 'b) \<Rightarrow> int \<Rightarrow> int \<Rightarrow> 'b list
                 \<Rightarrow> (range_error + 'b list) option"
  fix maxArgs :: nat and vs :: "'a list" and f :: "'a \<Rightarrow> nat \<Rightarrow> 'a list \<Rightarrow> 'b"
    and b i :: int and acc :: "'b list" and y :: "range_error + 'b list"
  assume IH: "\<And>maxArgs vs f (b::int) i acc y. loop maxArgs vs f b i acc = Some y \<Longrightarrow>
          (b \<le> 0 \<and> i < int (length vs) \<longrightarrow> y = Inl RangeError)
          \<and> \<not> (b \<le> 0 \<and> i < int (length vs) \<and> (b = 0 \<or> length vs \<le> maxArgs))"
  assume step: "(if i < int (length vs)
                 then if maxArgs < length (js_map f (js_slice vs i (i + b)))
                      then Some (Inl RangeError)
                      else loop maxArgs vs f b (i + b) (acc @ js_map f (js_slice vs i (i + b)))
                 else Some (Inr acc)) = Some y"
  show "(b \<le> 0 \<and> i < int (length vs) \<longrightarrow> y = Inl RangeError)
          \<and> \<not> (b \<le> 0 \<and> i < int (length vs) \<and> (b = 0 \<or> length vs \<le> maxArgs))"
  proof (cases "b \<le> 0 \<and> i < int (length vs)")
    case False
    then show ?thesis by blast
  next
    case inv: True
    show ?thesis
    proof (cases "maxArgs < length (js_map f (js_slice vs i (i + b)))")
      case True
      with step inv have y: "y = Inl RangeError" by simp
      have "b \<noteq> 0" using True by (auto simp: js_slice_empty length_js_map)
      moreover have "\<not> length vs \<le> maxArgs"
        using True length_js_slice[of vs i "i + b"] by (simp add: length_js_map)
      ultimately show ?thesis using y by blast
    next
      case False
      with step inv have "loop maxArgs vs f b (i + b) (acc @ js_map f (js_slice vs i (i + b))) = Some y"
        by simp
      from IH[OF this] inv show ?thesis by auto
    qed
  qed
qed

lemma batchProcess_loop_returns:
  assumes "1 \<le> b"
  shows "0 \<le> i \<Longrightarrow> \<exists>r. batchProcess_loop maxArgs vs f b i acc = Some r"
proof (induction "length vs - nat i" arbitrary: i acc rule: less_induct)
  case less
  show ?case
  proof (cases "i < int (length vs)")
    case True
    have m: "length vs - nat (i + b) < length vs - nat i" using True less.prems assms by linarith
    have nn: "0 \<le> i + b" using less.prems assms by simp
    show ?thesis
    proof (cases "maxArgs < length (js_map f (js_slice vs i (i + b)))")
      case over: True
      with True show ?thesis by (subst batchProcess_loop.simps) simp
    next
      case False
      with True have "batchProcess_loop maxArgs vs f b i acc =
          batchProcess_loop maxArgs vs f b (i + b) (acc @ js_map f (js_slice vs i (i + b)))"
        by (subst batchProcess_loop.simps) simp
      with less.hyps[OF m nn] show ?thesis by simp
    qed
  next
    case False
    then show ?thesis by (subst batchProcess_loop.simps) simp
  qed
qed

lemma batchProcess_never_returns:
  assumes "b \<le> 0" and "vs \<noteq> []" and "b = 0 \<or> length vs \<le> maxArgs"
  shows "batchProcess maxArgs vs f (Some b) = None"
proof (cases "batchProcess maxArgs vs f (Some b)")
  case None
  then show ?thesis .
next
  case (Some y)
  then have "batchProcess_loop maxArgs vs f b 0 [] = Some y" by (simp add: batchProcess_def)
  from batchProcess_loop_no_result[OF this] assms show ?thesis by simp
qed

lemma batchProcess_no_result:
  assumes "b \<le> 0" and "vs \<noteq> []"
  shows "batchProcess maxArgs vs f (Some b) \<noteq> Some (Inr r)"
proof
  assume "batchProcess maxArgs vs f (Some b) = Some (Inr r)"
  then have "batchProcess_loop maxArgs vs f b 0 [] = Some (Inr r)" by (simp add: batchProcess_def)
  from batchProcess_loop_no_result[OF this] assms show False by simp
qed





text \<open>
  C10. With \<open>batchSize \<ge> 1\<close> \<open>batchProcess\<close> ends on every list, with a result or with the
  \<open>RangeError\<close> of a chunk too long for one call. Nothing in the function checks
  \<open>batchSize\<close>: with \<open>batchSize \<le> 0\<close> it never gives a result on a non-empty list, and it
  never returns at all when \<open>batchSize\<close> is 0 or the list is short enough for one call.
\<close>

theorem batchProcess_terminates:
  "(1 \<le> b \<longrightarrow> (\<exists>r. batchProcess maxArgs vs f (Some b) = Some r))
   \<and> (b \<le> 0 \<longrightarrow> vs \<noteq> [] \<longrightarrow> b = 0 \<or> length vs \<le> maxArgs \<longrightarrow> batchProcess maxArgs vs f (Some b) = None)
   \<and> (b \<le> 0 \<longrightarrow> vs \<noteq> [] \<longrightarrow> batchProcess maxArgs vs f (Some b) \<noteq> Some (Inr res))"
  using batchProcess_loop_returns[of b 0 maxArgs vs f "[]"] batchProcess_never_returns[of b vs maxArgs f]
        batchProcess_no_result[of b vs maxArgs f res]
  by (simp add: batchProcess_def)

theorem batchProcess_terminates_witness:
  "(\<exists>r. batchProcess 100000 [10, 20, 30] index_seen (Some 2) = Some r)
   \<and> batchProcess 100000 [10, 20, 30] index_seen (Some 0) = None
   \<and> batchProcess 100000 [10, 20, 30] index_seen (Some (- 1)) = None"
  using batchProcess_terminates[of 2 100000 "[10, 20, 30]" index_seen]
        batchProcess_terminates[of 0 100000 "[10, 20, 30]" index_seen]
        batchProcess_terminates[of "- 1" 100000 "[10, 20, 30]" index_seen]
  by simp

section \<open>Properties of the service\<close>

subsection \<open>Pagination\<close>

text \<open>
  Rounding the quotient of two counts below \<open>2\<^sup>5\<^sup>3\<close> does not change its ceiling, so the
  exact quotient in \<open>listVectors\<close> gives the \<open>total_pages\<close> of the doubles.
\<close>

lemma count_quotient_ceiling:
  assumes "0 \<le> t" "t < 2 ^ 53" "1 \<le> l" "l < 2 ^ 53"
  shows "jceil (jdivide (Num (of_int t)) (Num (of_int l))) = jceil (jdiv (Num (of_int t)) (Num (of_int l)))"
proof (cases "t = 0")
  case True
  then show ?thesis using assms by (simp add: fl_zero)
next
  case False
  with assms have "1 \<le> t" by simp
  from count_quotient_rounded[OF this assms(2-4)] obtain r where
    "fl (of_int t / of_int l) = Num r" "\<lceil>r\<rceil> = \<lceil>real_of_int t / of_int l\<rceil>" by blast
  then show ?thesis using assms by simp
qed

text \<open>
  C6. For \<open>page \<ge> 1\<close> and \<open>limit \<ge> 1\<close>, when the store answers the page query and counts
  \<open>total_n\<close> matching documents, \<open>listVectors\<close> returns a pagination object with
  \<open>total_pages = \<lceil>total_n / limit\<rceil>\<close>, \<open>has_next\<close> true iff \<open>page * limit < total_n\<close> and
  \<open>has_prev\<close> true iff \<open>page > 1\<close>. The witness is the case of 25 matching records and
  limit 10, at pages 1 and 3.
\<close>

theorem listVectors_pagination:
  "1 \<le> page \<longrightarrow> 1 \<le> limit \<longrightarrow>
   o_page options = Some page \<longrightarrow> o_limit options = Some limit \<longrightarrow>
   find_docs store (list_filter options) (list_find_options options) = Inr cursor \<longrightarrow>
   countDocuments store (list_filter options) = Inr total_n \<longrightarrow>
     (\<exists>r. listVectors store options = Inr r
        \<and> current_page (l_pagination r) = page
        \<and> per_page (l_pagination r) = limit
        \<and> total_items (l_pagination r) = total_n
        \<and> total_pages (l_pagination r) = Num (of_int \<lceil>of_int total_n / (of_int limit :: real)\<rceil>)
        \<and> has_next (l_pagination r) = (page * limit < total_n)
        \<and> has_prev (l_pagination r) = (1 < page))"
  by (simp add: listVectors_def rethrow_def Let_def)

theorem listVectors_pagination_witness:
  "(\<exists>r. listVectors (counting_store 25) (page_request 1 10) = Inr r
       \<and> total_pages (l_pagination r) = Num 3
       \<and> has_next (l_pagination r) = True \<and> has_prev (l_pagination r) = False)
   \<and> (\<exists>r. listVectors (counting_store 25) (page_request 3 10) = Inr r
       \<and> total_pages (l_pagination r) = Num 3
       \<and> has_next (l_pagination r) = False \<and> has_prev (l_pagination r) = True)"
  using listVectors_pagination[of 1 10 "page_request 1 10" "counting_store 25" "[]" 25]
        listVectors_pagination[of 3 10 "page_request 3 10" "counting_store 25" "[]" 25]
  by (auto simp add: counting_store_def page_request_def)

subsection \<open>Similarity search\<close>

lemma map_of_set_field:
  "map_of (set_field k v kvs) k' = (if k' = k then Some v else map_of kvs k')"
  by (induction kvs) auto

lemma count_set_field:
  "length (filter (\<lambda>kv. fst kv = k') (set_field k v kvs)) =
     (if k' = k \<and> map_of kvs k = None then 1 else 0) + length (filter (\<lambda>kv. fst kv = k') kvs)"
  by (induction kvs) auto

lemma map_of_if_set_field:
  "map_of (if c then set_field k v kvs else kvs) k' =
     (if c \<and> k' = k then Some v else map_of kvs k')"
  by (simp add: map_of_set_field)

lemma count_if_set_field:
  "length (filter (\<lambda>kv. fst kv = k') (if c then set_field k v kvs else kvs)) =
     (if c \<and> k' = k \<and> map_of kvs k = None then 1 else 0) + length (filter (\<lambda>kv. fst kv = k') kvs)"
  by (simp add: count_set_field)

lemma created_at_constraint:
  "map_of (similarity_filter fs) ''metadata.created_at'' =
     (if truthy (f_created_after fs)
      then if truthy (f_created_before fs)
           then Some (JObject [(''$gte'', f_created_after fs), (''$lte'', f_created_before fs)])
           else Some (JObject [(''$gte'', f_created_after fs)])
      else if truthy (f_created_before fs)
           then Some (JObject [(''$lte'', f_created_before fs)])
           else None)"
  unfolding similarity_filter_def Let_def fields_or_empty_def
  by (simp add: map_of_if_set_field)

lemma created_at_once:
  "length (filter (\<lambda>kv. fst kv = ''metadata.created_at'') (similarity_filter fs)) =
     (if truthy (f_created_after fs) \<or> truthy (f_created_before fs) then 1 else 0)"
  unfolding similarity_filter_def Let_def fields_or_empty_def
  by (simp add: map_of_if_set_field count_if_set_field)

text \<open>
  C7, as amended. \<open>findSimilarVectors\<close> sends the store the filter, the query vector as
  the sort, the limit (10 when none is given) and the request for similarity scores.
  When the store answers with \<open>cursor\<close> it returns \<open>query_vector_dimensions\<close> equal to the
  length of the query vector, one result per document of the cursor, in the cursor's
  order, each with the document's id, vector, metadata and similarity score, and
  \<open>total_results\<close> equal to the number of results: as many results as the store
  returned, whatever the limit. When the store fails, so does the call. The filter has
  at most one constraint on \<^verbatim>\<open>metadata.created_at\<close>: both bounds when \<open>created_after\<close> and
  \<open>created_before\<close> are both truthy, the one truthy bound otherwise, and none when neither
  is.
\<close>

theorem findSimilarVectors_response:
  "similarity_find_options q options =
       \<lparr>opt_sort = SortVector q,
        opt_limit = (case s_limit options of None \<Rightarrow> 10 | Some l \<Rightarrow> l),
        opt_skip = None, opt_includeSimilarity = True\<rparr>
   \<and> (fs = (case s_filters options of None \<Rightarrow> no_filters | Some f \<Rightarrow> f) \<longrightarrow>
        (find_docs store (similarity_filter fs) (similarity_find_options q options) = Inr cursor \<longrightarrow>
           findSimilarVectors store q options =
             Inr \<lparr>query_vector_dimensions = length q,
                  results = map (\<lambda>d. \<lparr>r_id = d_id d, r_vector = d_vector d, r_metadata = d_metadata d,
                                       similarity_score = similarity d\<rparr>) cursor,
                  total_results = length cursor\<rparr>)
        \<and> (find_docs store (similarity_filter fs) (similarity_find_options q options) = Inl e \<longrightarrow>
           findSimilarVectors store q options =
             Inl (Error (''Failed to find similar vectors: '' @ message e))))
   \<and> map_of (similarity_filter fs) ''metadata.created_at'' =
        (if truthy (f_created_after fs)
         then if truthy (f_created_before fs)
              then Some (JObject [(''$gte'', f_created_after fs), (''$lte'', f_created_before fs)])
              else Some (JObject [(''$gte'', f_created_after fs)])
         else if truthy (f_created_before fs)
              then Some (JObject [(''$lte'', f_created_before fs)])
              else None)
   \<and> length (filter (\<lambda>kv. fst kv = ''metadata.created_at'') (similarity_filter fs)) =
        (if truthy (f_created_after fs) \<or> truthy (f_created_before fs) then 1 else 0)"
proof (intro conjI impI)
  show "similarity_find_options q options =
       \<lparr>opt_sort = SortVector q,
        opt_limit = (case s_limit options of None \<Rightarrow> 10 | Some l \<Rightarrow> l),
        opt_skip = None, opt_includeSimilarity = True\<rparr>"
    by (simp add: similarity_find_options_def)
next
  assume "fs = (case s_filters options of None \<Rightarrow> no_filters | Some f \<Rightarrow> f)"
    and "find_docs store (similarity_filter fs) (similarity_find_options q options) = Inr cursor"
  then show "findSimilarVectors store q options =
             Inr \<lparr>query_vector_dimensions = length q,
                  results = map (\<lambda>d. \<lparr>r_id = d_id d, r_vector = d_vector d, r_metadata = d_metadata d,
                                       similarity_score = similarity d\<rparr>) cursor,
                  total_results = length cursor\<rparr>"
    by (simp add: findSimilarVectors_def rethrow_def Let_def to_similar_def[abs_def])
next
  assume "fs = (case s_filters options of None \<Rightarrow> no_filters | Some f \<Rightarrow> f)"
    and "find_docs store (similarity_filter fs) (similarity_find_options q options) = Inl e"
  then show "findSimilarVectors store q options =
             Inl (Error (''Failed to find similar vectors: '' @ message e))"
    by (simp add: findSimilarVectors_def rethrow_def Let_def)
next
  show "map_of (similarity_filter fs) ''metadata.created_at'' =
        (if truthy (f_created_after fs)
         then if truthy (f_created_before fs)
              then Some (JObject [(''$gte'', f_created_after fs), (''$lte'', f_created_before fs)])
              else Some (JObject [(''$gte'', f_created_after fs)])
         else if truthy (f_created_before fs)
              then Some (JObject [(''$lte'', f_created_before fs)])
              else None)"
    by (rule created_at_constraint)
next
  show "length (filter (\<lambda>kv. fst kv = ''metadata.created_at'') (similarity_filter fs)) =
        (if truthy (f_created_after fs) \<or> truthy (f_created_before fs) then 1 else 0)"
    by (rule created_at_once)
qed

theorem findSimilarVectors_response_witness:
  "findSimilarVectors ranked_store [Num 1, Num 0] \<lparr>s_limit = Some 5, s_filters = Some dated_filters\<rparr>
     = Inr \<lparr>query_vector_dimensions = 2,
            results =
              [\<lparr>r_id = ''a'', r_vector = [Num 1, Num 0], r_metadata = Map.empty,
                similarity_score = JNumber (Num 1)\<rparr>,
               \<lparr>r_id = ''b'', r_vector = [Num 0, Num 1], r_metadata = Map.empty,
                similarity_score = JNumber (Num (1 / 2))\<rparr>],
            total_results = 2\<rparr>
   \<and> map_of (similarity_filter dated_filters) ''metadata.created_at'' =
        Some (JObject [(''$gte'', JString ''2024-01-01''), (''$lte'', JString ''2024-12-31'')])
   \<and> findSimilarVectors failing_store [Num 1, Num 0] \<lparr>s_limit = None, s_filters = None\<rparr>
        = Inl (Error ''Failed to find similar vectors: timeout'')
   \<and> similarity_find_options [Num 1, Num 0] \<lparr>s_limit = None, s_filters = None\<rparr>
        = \<lparr>opt_sort = SortVector [Num 1, Num 0], opt_limit = 10, opt_skip = None,
           opt_includeSimilarity = True\<rparr>"
  using findSimilarVectors_response[of "[Num 1, Num 0]"
          "\<lparr>s_limit = Some 5, s_filters = Some dated_filters\<rparr>" dated_filters ranked_store
          "[\<lparr>d_id = ''a'', d_vector = [Num 1, Num 0], d_metadata = Map.empty,
              similarity = JNumber (Num 1)\<rparr>,
             \<lparr>d_id = ''b'', d_vector = [Num 0, Num 1], d_metadata = Map.empty,
              similarity = JNumber (Num (1 / 2))\<rparr>]"]
        findSimilarVectors_response[of "[Num 1, Num 0]"
          "\<lparr>s_limit = None, s_filters = None\<rparr>" no_filters failing_store _ "Error ''timeout''"]
  by (simp add: ranked_store_def failing_store_def dated_filters_def no_filters_def)

text \<open>
  C7 as stated fails twice: a store that answers with two documents gives two
  results at limit 1, and a bound that is supplied but falsy (the timestamp 0) is
  left out of the filter.
\<close>

theorem findSimilarVectors_over_limit:
  "map_sum message total_results
      (findSimilarVectors ranked_store [Num 1, Num 0] \<lparr>s_limit = Some 1, s_filters = None\<rparr>) = Inr 2
   \<and> map_of (similarity_filter
               (no_filters\<lparr>f_created_after := JNumber (Num 0),
                           f_created_before := JString ''2024-12-31''\<rparr>))
        ''metadata.created_at'' = Some (JObject [(''$lte'', JString ''2024-12-31'')])"
  by (simp add: findSimilarVectors_def rethrow_def Let_def ranked_store_def created_at_constraint
        no_filters_def)

subsection \<open>Absent ids at the routes\<close>

lemma rethrow_message:
  "rethrow context r = Inl e \<Longrightarrow> \<exists>m. e = Error (context @ m)"
  by (auto simp: rethrow_def split: sum.splits)

lemma get_route_never_404: "get_route c ident \<noteq> Status404 m"
proof (cases "getVectorById c ident")
  case (Inl e)
  then obtain m' where "e = Error (''Failed to get vector: '' @ m')"
    unfolding getVectorById_def by (blast dest: rethrow_message)
  with Inl show ?thesis by (simp add: get_route_def not_found_or_next_def)
next
  case (Inr v)
  then show ?thesis by (simp add: get_route_def)
qed

lemma put_route_never_404: "fst (put_route env c ident body) \<noteq> Status404 m"
  by (auto simp: put_route_def updateVector_def rethrow_def not_found_or_next_def
           split: sum.splits prod.splits option.splits)

lemma delete_route_never_404: "fst (delete_route c ident) \<noteq> Status404 m"
  by (auto simp: delete_route_def deleteVector_def rethrow_def not_found_or_next_def
           split: sum.splits prod.splits option.splits)

text \<open>
  C3. For an id the store does not hold, \<open>getVectorById\<close> fails with the message
  \<^verbatim>\<open>Failed to get vector: Vector not found\<close>: the route compares the message with
  \<^verbatim>\<open>Vector not found\<close>, so it answers no 404 and hands the error to \<^verbatim>\<open>next\<close>, exactly
  as it does when the store itself fails with that text. The update and delete
  routes do the same.
\<close>

theorem absent_id_is_not_404:
  "getVectorById sample_collection ''missing'' = Inl (Error ''Failed to get vector: Vector not found'')
   \<and> get_route sample_collection ''missing'' = Next (Error ''Failed to get vector: Vector not found'')
   \<and> get_route (sample_collection\<lparr>failure := Some ''Vector not found''\<rparr>) ''missing''
        = Next (Error ''Failed to get vector: Vector not found'')
   \<and> fst (put_route sample_env sample_collection ''missing'' \<lparr>u_vector = None, u_metadata = None\<rparr>)
        = Next (Error ''Failed to update vector: Vector not found'')
   \<and> fst (delete_route sample_collection ''missing'')
        = Next (Error ''Failed to delete vector: Vector not found'')"
  by (simp add: getVectorById_def get_route_def put_route_def delete_route_def updateVector_def
        deleteVector_def findOne_def findOneAndUpdate_def deleteOne_def rethrow_def
        not_found_or_next_def sample_collection_def sample_doc_def)


subsection \<open>Writes\<close>

lemma new_document_dimensions:
  "d_metadata (new_document env k vd) ''dimensions''
     = Some (JNumber (Num (real (length (d_vector (new_document env k vd))))))"
  by (simp add: new_document_def)

lemma createVector_dimensions:
  assumes "createVector env c vd = (Inr r, c')"
  shows "r_metadata r ''dimensions'' = Some (JNumber (Num (real (length (r_vector r)))))
         \<and> docs c' = docs c @ [new_document env 0 vd]"
  using assms
  by (auto simp: createVector_def insertOne_def rethrow_def Let_def new_document_dimensions
           split: option.splits)

lemma createVectorsBatch_dimensions:
  assumes "createVectorsBatch env c vds = (Inr r, c')"
  shows "list_all (\<lambda>v. r_metadata v ''dimensions'' = Some (JNumber (Num (real (length (r_vector v))))))
           (batch_vectors r)"
  using assms
  by (auto simp: createVectorsBatch_def insertMany_def rethrow_def Let_def list_all_iff to_record_def
                 new_document_dimensions split: option.splits)

lemma find_update_first:
  "find (\<lambda>d. d_id d = ident) ds = Some d \<Longrightarrow>
   find (\<lambda>d. d_id d = ident) (update_first ident upd ds) = Some (apply_set upd d)"
  by (induction ds) (auto simp: apply_set_def)

lemma updateVector_found:
  assumes "findOne c ident = Inr (Some d)"
  shows "updateVector env c ident body =
           (Inr (to_record (apply_set (build_update env body) d)),
            c\<lparr>docs := update_first ident (build_update env body) (docs c)\<rparr>)"
  using assms
  by (auto simp: updateVector_def findOneAndUpdate_def findOne_def split: option.splits)

lemma updateVector_vector_and_metadata:
  assumes "findOne c ident = Inr (Some d)"
    and "updateVector env c ident \<lparr>u_vector = Some v, u_metadata = Some m\<rparr> = (res, c')"
  shows "\<exists>r. res = Inr r \<and> r_vector r = v
           \<and> r_metadata r ''dimensions'' = Some (JNumber (Num (real (length v))))
           \<and> r_metadata r ''updated_at'' = Some (JString (now env 0))"
  using assms(2) unfolding updateVector_found[OF assms(1)]
  by (auto simp: to_record_def apply_set_def build_update_def Let_def)

lemma updateVector_vector_only:
  assumes "findOne c ident = Inr (Some d)"
    and "updateVector env c ident \<lparr>u_vector = Some v, u_metadata = None\<rparr> = (res, c')"
  shows "res = Inr \<lparr>r_id = d_id d, r_vector = v, r_metadata = d_metadata d\<rparr>"
  using assms(2) unfolding updateVector_found[OF assms(1)]
  by (auto simp: to_record_def apply_set_def build_update_def Let_def)

lemma updateVector_metadata_only:
  assumes "findOne c ident = Inr (Some d)"
    and "updateVector env c ident \<lparr>u_vector = None, u_metadata = Some m\<rparr> = (res, c')"
  shows "res = Inr \<lparr>r_id = d_id d, r_vector = d_vector d,
                     r_metadata = m(''updated_at'' \<mapsto> JString (now env 0))\<rparr>"
  using assms(2) unfolding updateVector_found[OF assms(1)]
  by (auto simp: to_record_def apply_set_def build_update_def Let_def)

text \<open>
  C1. The stored record has \<^verbatim>\<open>user_id\<close>, \<^verbatim>\<open>dimensions\<close>, \<^verbatim>\<open>created_at\<close> and
  \<^verbatim>\<open>updated_at\<close>. An update with metadata \<^verbatim>\<open>{tags: ['calm']}\<close> leaves a record whose
  metadata is \<^verbatim>\<open>tags\<close> and \<^verbatim>\<open>updated_at\<close> only: the omitted keys are gone. An update with
  a vector and no metadata leaves the metadata as it was, \<^verbatim>\<open>updated_at\<close> included.
\<close>

theorem updateVector_replaces_metadata:
  "updateVector sample_env sample_collection ''v1''
      \<lparr>u_vector = None, u_metadata = Some [''tags'' \<mapsto> JArray [JString ''calm'']]\<rparr>
     = (Inr \<lparr>r_id = ''v1'', r_vector = [Num 1, Num 2],
             r_metadata = [''tags'' \<mapsto> JArray [JString ''calm''],
                           ''updated_at'' \<mapsto> JString ''2024-02-02T00:00:00.000Z'']\<rparr>,
        \<lparr>docs = [\<lparr>d_id = ''v1'', d_vector = [Num 1, Num 2],
                   d_metadata = [''tags'' \<mapsto> JArray [JString ''calm''],
                                 ''updated_at'' \<mapsto> JString ''2024-02-02T00:00:00.000Z'']\<rparr>],
         failure = None\<rparr>)
   \<and> [''tags'' \<mapsto> JArray [JString ''calm''],
       ''updated_at'' \<mapsto> JString ''2024-02-02T00:00:00.000Z''] ''user_id'' = None
   \<and> d_metadata sample_doc ''user_id'' = Some (JString ''u1'')
   \<and> fst (updateVector sample_env sample_collection ''v1''
            \<lparr>u_vector = Some [Num 7, Num 8, Num 9], u_metadata = None\<rparr>)
       = Inr \<lparr>r_id = ''v1'', r_vector = [Num 7, Num 8, Num 9], r_metadata = d_metadata sample_doc\<rparr>
   \<and> d_metadata sample_doc ''updated_at'' = Some (JString ''2024-01-01T00:00:00.000Z'')
   \<and> now sample_env 0 = ''2024-02-02T00:00:00.000Z''"
  by (simp add: updateVector_def findOneAndUpdate_def build_update_def apply_set_def to_record_def
        sample_collection_def sample_doc_def sample_env_def Let_def)

text \<open>
  C2. After an update of the stored two-dimensional record with a three-dimensional
  vector and no metadata, the store holds the new vector with the old metadata:
  \<^verbatim>\<open>dimensions\<close> is still 2.
\<close>

theorem updateVector_stale_dimensions:
  "snd (updateVector sample_env sample_collection ''v1''
            \<lparr>u_vector = Some [Num 7, Num 8, Num 9], u_metadata = None\<rparr>)
     = \<lparr>docs = [\<lparr>d_id = ''v1'', d_vector = [Num 7, Num 8, Num 9], d_metadata = d_metadata sample_doc\<rparr>],
        failure = None\<rparr>
   \<and> d_metadata sample_doc ''dimensions'' = Some (JNumber (Num 2))
   \<and> length [Num 7, Num 8, Num 9] = 3"
  by (simp add: updateVector_def findOneAndUpdate_def build_update_def apply_set_def to_record_def
        sample_collection_def sample_doc_def sample_env_def Let_def)

end
